theory Spec2Isabelle
  imports Complex_Main "HOL-Library.Sublist" "HOL-Library.Monad_Syntax"
begin

section \<open>Values exchanged with the runtime\<close>

text \<open>
  The server is one TypeScript module, \<^verbatim>\<open>src/index.ts\<close>. It talks to three parts of the
  JavaScript runtime: \<^verbatim>\<open>fetch\<close>, the \<^verbatim>\<open>URL\<close> class and \<^verbatim>\<open>Buffer\<close>. They are not part
  of the module: \<^verbatim>\<open>fetch\<close> and \<^verbatim>\<open>URL\<close> are parameters of the model, and the two decoders
  of \<^verbatim>\<open>Buffer\<close> are written out.

  The strings the module compares, concatenates or splits (URLs, paths, messages, the
  encoded content) are modelled as \<^typ>\<open>string\<close>. The text that
  \<^verbatim>\<open>Buffer.toString("utf8")\<close> returns is modelled as the list of its Unicode code points;
  the decoder never produces an unpaired surrogate, so the code points determine the
  JavaScript string.
\<close>

text \<open>A parsed JSON value, as \<^verbatim>\<open>response.json()\<close> yields it. An object is the list of its
  own properties, each key once; a property is read with \<open>map_of\<close>. The module never
  looks at the value of a number.\<close>

datatype json =
    JNull
  | JBool bool
  | JNum rat
  | JStr string
  | JArr "json list"
  | JObj "(string \<times> json) list"

text \<open>What the module can throw. \<open>Error m\<close> is \<^verbatim>\<open>new Error(m)\<close>, the only error the module
  constructs itself. \<open>ZodError\<close> is thrown by a schema's \<^verbatim>\<open>parse\<close>, \<open>SyntaxError\<close> by
  \<^verbatim>\<open>response.json()\<close> on a body that is not JSON, \<open>TypeError\<close> by the runtime (a rejected
  \<^verbatim>\<open>fetch\<close>, an invalid URL, a property read on \<^verbatim>\<open>null\<close>).\<close>

datatype error =
    Error string
  | ZodError
  | SyntaxError
  | TypeError

record request =
  req_url :: string
  req_headers :: "(string \<times> string) list"

text \<open>A response: \<^verbatim>\<open>response.ok\<close>, \<^verbatim>\<open>response.statusText\<close> and the body as
  \<^verbatim>\<open>response.json()\<close> parses it (\<open>None\<close> when the body is not JSON).\<close>

record response =
  ok :: bool
  statusText :: string
  body :: "json option"

text \<open>The runtime the module runs on.
  \<^item> \<open>fetch r\<close> is the response to the request \<open>r\<close>, \<open>None\<close> when the promise rejects.
  \<^item> \<open>URL_pathname s\<close> is \<^verbatim>\<open>new URL(s).pathname\<close>, \<open>None\<close> when the constructor throws.
  \<^item> \<open>URL_href x b\<close> is \<^verbatim>\<open>new URL(x, new URL(b)).href\<close> for a JavaScript value \<open>x\<close>
    (\<open>None\<close> stands for \<^verbatim>\<open>undefined\<close>); the result is \<open>None\<close> when the constructor throws.\<close>

record runtime =
  fetch :: "request \<Rightarrow> response option"
  URL_pathname :: "string \<Rightarrow> string option"
  URL_href :: "json option \<Rightarrow> string \<Rightarrow> string option"

section \<open>Buffer: base64 and UTF-8 decoding\<close>

text \<open>\<^verbatim>\<open>Buffer.from(s, "base64")\<close>. The decoder accepts the standard and the URL-safe
  alphabet, skips every character outside them, and stops at the first \<^verbatim>\<open>=\<close>. Four
  sextets give three bytes; two or three trailing sextets give one or two bytes; one
  trailing sextet gives none.\<close>

definition unbase64 :: "char \<Rightarrow> nat option" where
  "unbase64 c =
     (let n = (of_char c :: nat) in
      if 65 \<le> n \<and> n \<le> 90 then Some (n - 65)
      else if 97 \<le> n \<and> n \<le> 122 then Some (n - 71)
      else if 48 \<le> n \<and> n \<le> 57 then Some (n + 4)
      else if n = 43 \<or> n = 45 then Some 62
      else if n = 47 \<or> n = 95 then Some 63
      else None)"

fun base64_sextets :: "string \<Rightarrow> nat list" where
  "base64_sextets [] = []"
| "base64_sextets (c # cs) =
     (if c = CHR ''='' then []
      else case unbase64 c of
             None \<Rightarrow> base64_sextets cs
           | Some v \<Rightarrow> v # base64_sextets cs)"

fun sextets_bytes :: "nat list \<Rightarrow> nat list" where
  "sextets_bytes (a # b # c # d # r) =
     (a * 4 + b div 16) # ((b mod 16) * 16 + c div 4) # ((c mod 4) * 64 + d) # sextets_bytes r"
| "sextets_bytes [a, b, c] = [a * 4 + b div 16, (b mod 16) * 16 + c div 4]"
| "sextets_bytes [a, b] = [a * 4 + b div 16]"
| "sextets_bytes _ = []"

definition base64_decode :: "string \<Rightarrow> nat list" where
  "base64_decode s = sextets_bytes (base64_sextets s)"

text \<open>\<^verbatim>\<open>buf.toString("utf8")\<close>. A well-formed sequence gives its code point. An ill-formed
  one gives U+FFFD for its longest prefix that could start a well-formed sequence, and
  decoding goes on with the byte that broke it. Overlong forms, surrogates and code points
  above U+10FFFF are ill-formed: the second byte's range depends on the lead byte. No byte
  order mark is removed.\<close>

definition is_cont :: "nat \<Rightarrow> bool" where
  "is_cont b = (128 \<le> b \<and> b \<le> 191)"

definition second_ok :: "nat \<Rightarrow> nat \<Rightarrow> bool" where
  "second_ok lead b =
     (if lead = 224 then 160 \<le> b \<and> b \<le> 191
      else if lead = 237 then 128 \<le> b \<and> b \<le> 159
      else if lead = 240 then 144 \<le> b \<and> b \<le> 191
      else if lead = 244 then 128 \<le> b \<and> b \<le> 143
      else is_cont b)"

fun utf8_decode :: "nat list \<Rightarrow> nat list" where
  "utf8_decode [] = []"
| "utf8_decode (b # bs) =
     (if b < 128 then b # utf8_decode bs
      else if 194 \<le> b \<and> b \<le> 223 then
        (case bs of
           [] \<Rightarrow> [65533]
         | c1 # r1 \<Rightarrow>
             if is_cont c1 then ((b - 192) * 64 + (c1 - 128)) # utf8_decode r1
             else 65533 # utf8_decode (c1 # r1))
      else if 224 \<le> b \<and> b \<le> 239 then
        (case bs of
           [] \<Rightarrow> [65533]
         | c1 # r1 \<Rightarrow>
             if \<not> second_ok b c1 then 65533 # utf8_decode (c1 # r1)
             else
               (case r1 of
                  [] \<Rightarrow> [65533]
                | c2 # r2 \<Rightarrow>
                    if is_cont c2
                    then ((b - 224) * 4096 + (c1 - 128) * 64 + (c2 - 128)) # utf8_decode r2
                    else 65533 # utf8_decode (c2 # r2)))
      else if 240 \<le> b \<and> b \<le> 244 then
        (case bs of
           [] \<Rightarrow> [65533]
         | c1 # r1 \<Rightarrow>
             if \<not> second_ok b c1 then 65533 # utf8_decode (c1 # r1)
             else
               (case r1 of
                  [] \<Rightarrow> [65533]
                | c2 # r2 \<Rightarrow>
                    if \<not> is_cont c2 then 65533 # utf8_decode (c2 # r2)
                    else
                      (case r2 of
                         [] \<Rightarrow> [65533]
                       | c3 # r3 \<Rightarrow>
                           if is_cont c3
                           then ((b - 240) * 262144 + (c1 - 128) * 4096
                                  + (c2 - 128) * 64 + (c3 - 128)) # utf8_decode r3
                           else 65533 # utf8_decode (c3 # r3))))
      else 65533 # utf8_decode bs)"

definition Buffer_base64_utf8 :: "string \<Rightarrow> nat list" where
  "Buffer_base64_utf8 s = utf8_decode (base64_decode s)"

section \<open>The zod schemas\<close>

text \<open>\<^verbatim>\<open>z.string()\<close>, \<^verbatim>\<open>z.number()\<close> and \<^verbatim>\<open>z.string().nullable()\<close> applied to the value of a
  property (\<open>None\<close> when the property is absent).\<close>

definition z_string :: "json option \<Rightarrow> string option" where
  "z_string v = (case v of Some (JStr s) \<Rightarrow> Some s | _ \<Rightarrow> None)"

definition z_number :: "json option \<Rightarrow> rat option" where
  "z_number v = (case v of Some (JNum n) \<Rightarrow> Some n | _ \<Rightarrow> None)"

definition z_string_nullable :: "json option \<Rightarrow> string option option" where
  "z_string_nullable v =
     (case v of Some (JStr s) \<Rightarrow> Some (Some s) | Some JNull \<Rightarrow> Some None | _ \<Rightarrow> None)"

record GitHubFileContent =
  fc_type :: string
  fc_encoding :: string
  fc_size :: rat
  fc_name :: string
  fc_path :: string
  fc_content :: string
  fc_sha :: string
  fc_url :: string
  fc_git_url :: string
  fc_html_url :: string
  fc_download_url :: string

record GitHubDirectoryContent =
  dc_type :: string
  dc_size :: rat
  dc_name :: string
  dc_path :: string
  dc_sha :: string
  dc_url :: string
  dc_git_url :: string
  dc_html_url :: string
  dc_download_url :: "string option"

text \<open>\<^verbatim>\<open>z.object({...})\<close> accepts an object whose listed properties all validate, and
  returns the listed properties only. \<open>None\<close> is a failed validation.\<close>

definition GitHubFileContentSchema :: "json \<Rightarrow> GitHubFileContent option" where
  "GitHubFileContentSchema j =
     (case j of
        JObj kvs \<Rightarrow>
          do {
            t \<leftarrow> z_string (map_of kvs ''type'');
            e \<leftarrow> z_string (map_of kvs ''encoding'');
            z \<leftarrow> z_number (map_of kvs ''size'');
            n \<leftarrow> z_string (map_of kvs ''name'');
            p \<leftarrow> z_string (map_of kvs ''path'');
            c \<leftarrow> z_string (map_of kvs ''content'');
            s \<leftarrow> z_string (map_of kvs ''sha'');
            u \<leftarrow> z_string (map_of kvs ''url'');
            g \<leftarrow> z_string (map_of kvs ''git_url'');
            h \<leftarrow> z_string (map_of kvs ''html_url'');
            d \<leftarrow> z_string (map_of kvs ''download_url'');
            Some \<lparr>fc_type = t, fc_encoding = e, fc_size = z, fc_name = n, fc_path = p,
                  fc_content = c, fc_sha = s, fc_url = u, fc_git_url = g, fc_html_url = h,
                  fc_download_url = d\<rparr>
          }
      | _ \<Rightarrow> None)"

definition GitHubDirectoryContentSchema :: "json \<Rightarrow> GitHubDirectoryContent option" where
  "GitHubDirectoryContentSchema j =
     (case j of
        JObj kvs \<Rightarrow>
          do {
            t \<leftarrow> z_string (map_of kvs ''type'');
            z \<leftarrow> z_number (map_of kvs ''size'');
            n \<leftarrow> z_string (map_of kvs ''name'');
            p \<leftarrow> z_string (map_of kvs ''path'');
            s \<leftarrow> z_string (map_of kvs ''sha'');
            u \<leftarrow> z_string (map_of kvs ''url'');
            g \<leftarrow> z_string (map_of kvs ''git_url'');
            h \<leftarrow> z_string (map_of kvs ''html_url'');
            d \<leftarrow> z_string_nullable (map_of kvs ''download_url'');
            Some \<lparr>dc_type = t, dc_size = z, dc_name = n, dc_path = p, dc_sha = s,
                  dc_url = u, dc_git_url = g, dc_html_url = h, dc_download_url = d\<rparr>
          }
      | _ \<Rightarrow> None)"

text \<open>\<^verbatim>\<open>z.array(schema)\<close>: every element validates.\<close>

fun z_array :: "(json \<Rightarrow> 'a option) \<Rightarrow> json list \<Rightarrow> 'a list option" where
  "z_array schema [] = Some []"
| "z_array schema (x # xs) =
     (case schema x of
        None \<Rightarrow> None
      | Some y \<Rightarrow> (case z_array schema xs of None \<Rightarrow> None | Some ys \<Rightarrow> Some (y # ys)))"

text \<open>The value \<^verbatim>\<open>GitHubContentSchema.parse\<close> returns: the file object, or the array, for
  which \<^verbatim>\<open>Array.isArray\<close> holds.\<close>

datatype GitHubContent =
    FileContent GitHubFileContent
  | DirectoryContents "GitHubDirectoryContent list"

text \<open>\<^verbatim>\<open>z.union([GitHubFileContentSchema, z.array(GitHubDirectoryContentSchema)])\<close>: the
  first option that validates gives the result; \<^verbatim>\<open>parse\<close> throws when none does.\<close>

definition GitHubContentSchema_parse :: "json \<Rightarrow> error + GitHubContent" where
  "GitHubContentSchema_parse j =
     (case GitHubFileContentSchema j of
        Some f \<Rightarrow> Inr (FileContent f)
      | None \<Rightarrow>
          (case j of
             JArr xs \<Rightarrow>
               (case z_array GitHubDirectoryContentSchema xs of
                  Some ds \<Rightarrow> Inr (DirectoryContents ds)
                | None \<Rightarrow> Inl ZodError)
           | _ \<Rightarrow> Inl ZodError))"

section \<open>String operations of the language\<close>

text \<open>\<^verbatim>\<open>s.split(sep)\<close> for a separator string: the pieces between the occurrences of
  \<open>sep\<close>, found from left to right without overlap. With the empty separator the
  pieces are the characters.\<close>

function split_nonempty :: "string \<Rightarrow> string \<Rightarrow> string list" where
  "split_nonempty sep [] = [[]]"
| "split_nonempty sep (c # cs) =
     (if prefix sep (c # cs) then [] # split_nonempty sep (drop (length sep - 1) cs)
      else (case split_nonempty sep cs of
              [] \<Rightarrow> [[c]]
            | x # xs \<Rightarrow> (c # x) # xs))"
  by pat_completeness auto
termination
  by (relation "measure (\<lambda>(sep, s). length s)") auto

definition split :: "string \<Rightarrow> string \<Rightarrow> string list" where
  "split s sep = (if sep = [] then map (\<lambda>c. [c]) s else split_nonempty sep s)"

text \<open>\<^verbatim>\<open>xs[i]\<close> on an array: \<^verbatim>\<open>undefined\<close> (here \<open>None\<close>) out of range.\<close>

definition index :: "'a list \<Rightarrow> nat \<Rightarrow> 'a option" where
  "index xs i = (if i < length xs then Some (xs ! i) else None)"

text \<open>A string or \<^verbatim>\<open>undefined\<close> inside a template literal.\<close>

definition template_str :: "string option \<Rightarrow> string" where
  "template_str v = (case v of None \<Rightarrow> ''undefined'' | Some s \<Rightarrow> s)"

text \<open>Truthiness of a string or \<^verbatim>\<open>undefined\<close>: the empty string and \<^verbatim>\<open>undefined\<close> are
  falsy.\<close>

definition truthy :: "string option \<Rightarrow> bool" where
  "truthy v = (case v of None \<Rightarrow> False | Some s \<Rightarrow> s \<noteq> [])"

text \<open>\<^verbatim>\<open>v[k]\<close> for a parsed JSON value \<open>v\<close> and one of the keys the module reads
  (\<^verbatim>\<open>path\<close>, \<^verbatim>\<open>type\<close>): a \<^verbatim>\<open>TypeError\<close> on \<^verbatim>\<open>null\<close>, the property of an object
  (\<open>None\<close>, that is \<^verbatim>\<open>undefined\<close>, when it has none), and \<^verbatim>\<open>undefined\<close> on every other
  value.\<close>

definition property :: "json \<Rightarrow> string \<Rightarrow> json option" where
  "property v k = (case v of JObj kvs \<Rightarrow> map_of kvs k | _ \<Rightarrow> None)"

definition get_prop :: "json \<Rightarrow> string \<Rightarrow> error + json option" where
  "get_prop v k = (case v of JNull \<Rightarrow> Inl TypeError | _ \<Rightarrow> Inr (property v k))"

section \<open>The server\<close>

record GithubRepoServerParams =
  githubPersonalAccessToken :: string
  owner :: string
  repo :: string
  branch :: "string option"

text \<open>The object \<^verbatim>\<open>createGithubRepoServer\<close> returns: the name, version and capabilities
  given to \<^verbatim>\<open>new Server\<close>, and what the handlers' closures hold, namely the parameters
  and \<^verbatim>\<open>resourceBaseUrl\<close>. The string given to \<^verbatim>\<open>new URL\<close> starts with
  \<^verbatim>\<open>https://api.github.com/\<close>, so the host ends at that slash and the constructor
  does not throw; the model keeps the string, and \<open>URL_href\<close> takes it as its base.\<close>

record Server =
  server_name :: string
  server_version :: string
  capabilities :: "string list"
  params :: GithubRepoServerParams
  resourceBaseUrl :: string

text \<open>An operation returns the outbound requests it made, in order, and either the error
  it threw or its result.\<close>

type_synonym 'a io = "request list \<times> (error + 'a)"

definition createGithubRepoServer :: "GithubRepoServerParams \<Rightarrow> Server io" where
  "createGithubRepoServer p =
     (if githubPersonalAccessToken p = [] then
        ([], Inl (Error ''githubPersonalAccessToken is required''))
      else if owner p = [] then ([], Inl (Error ''owner is required''))
      else if repo p = [] then ([], Inl (Error ''repo is required''))
      else
        ([], Inr \<lparr>server_name = ''@loglm/mcp-server-github-repo'',
                  server_version = ''0.1.0'',
                  capabilities = [''resources'', ''tools''],
                  params = p,
                  resourceBaseUrl =
                    ''https://api.github.com/repos/'' @ owner p @ ''/'' @ repo p
                      @ ''/contents/''\<rparr>))"

text \<open>\<^verbatim>\<open>listFiles\<close> and \<^verbatim>\<open>getFileContent\<close> begin with the same statements: the URL,
  with \<^verbatim>\<open>?ref=\<close> and the branch appended when \<^verbatim>\<open>branch\<close> is truthy, and the headers
  of the request given to \<^verbatim>\<open>fetch\<close>. \<open>path\<close> is the text the template literal
  inserts.\<close>

definition contents_request :: "Server \<Rightarrow> string \<Rightarrow> request" where
  "contents_request srv path =
     (let url = ''https://api.github.com/repos/'' @ owner (params srv) @ ''/''
                  @ repo (params srv) @ ''/contents/'' @ path;
          url = (if truthy (branch (params srv))
                 then url @ ''?ref='' @ template_str (branch (params srv)) else url)
      in \<lparr>req_url = url,
          req_headers =
            [(''Authorization'', ''token '' @ githubPersonalAccessToken (params srv)),
             (''Accept'', ''application/vnd.github.v3+json''),
             (''User-Agent'', ''mcp-server-github-repo'')]\<rparr>)"

definition listFiles :: "runtime \<Rightarrow> Server \<Rightarrow> string \<Rightarrow> json list io" where
  "listFiles rt srv path =
     (let req = contents_request srv path
      in case fetch rt req of
           None \<Rightarrow> ([req], Inl TypeError)
         | Some resp \<Rightarrow>
             if \<not> ok resp then
               ([req], Inl (Error (''GitHub API error: '' @ statusText resp)))
             else
               (case body resp of
                  None \<Rightarrow> ([req], Inl SyntaxError)
                | Some contents \<Rightarrow>
                    ([req], Inr (case contents of JArr xs \<Rightarrow> xs | _ \<Rightarrow> [contents]))))"

text \<open>The handler passes \<^verbatim>\<open>split(...)[1]\<close>, which is \<^verbatim>\<open>undefined\<close> when the array has one
  element, so the argument is a string or \<^verbatim>\<open>undefined\<close>.\<close>

definition getFileContent :: "runtime \<Rightarrow> Server \<Rightarrow> string option \<Rightarrow> nat list io" where
  "getFileContent rt srv path =
     (let req = contents_request srv (template_str path)
      in case fetch rt req of
           None \<Rightarrow> ([req], Inl TypeError)
         | Some resp \<Rightarrow>
             if \<not> ok resp then
               ([req], Inl (Error (''GitHub API error: '' @ statusText resp)))
             else
               (case body resp of
                  None \<Rightarrow> ([req], Inl SyntaxError)
                | Some j \<Rightarrow>
                    (case GitHubContentSchema_parse j of
                       Inl e \<Rightarrow> ([req], Inl e)
                     | Inr (DirectoryContents ds) \<Rightarrow>
                         ([req], Inl (Error ''Path points to a directory, not a file''))
                     | Inr (FileContent data) \<Rightarrow>
                         ([req], Inr (Buffer_base64_utf8 (fc_content data))))))"

subsection \<open>The request handlers\<close>

text \<open>A resource of the list-resources response. \<open>res_name\<close> is \<^verbatim>\<open>file.path\<close> as read
  from the unvalidated entry: any JSON value, or \<^verbatim>\<open>undefined\<close>.\<close>

record resource =
  res_uri :: string
  res_mimeType :: string
  res_name :: "json option"

record resource_contents =
  cont_uri :: string
  cont_mimeType :: string
  cont_text :: "nat list"

text \<open>The callback of \<^verbatim>\<open>files.map\<close>. The properties of the object literal are evaluated
  in order: \<^verbatim>\<open>file.path\<close>, the \<^verbatim>\<open>URL\<close> constructor, \<^verbatim>\<open>file.type\<close>.\<close>

definition to_resource :: "runtime \<Rightarrow> Server \<Rightarrow> json \<Rightarrow> error + resource" where
  "to_resource rt srv file =
     (case get_prop file ''path'' of
        Inl e \<Rightarrow> Inl e
      | Inr p \<Rightarrow>
          (case URL_href rt p (resourceBaseUrl srv) of
             None \<Rightarrow> Inl TypeError
           | Some href \<Rightarrow>
               (case get_prop file ''type'' of
                  Inl e \<Rightarrow> Inl e
                | Inr t \<Rightarrow>
                    Inr \<lparr>res_uri = href,
                         res_mimeType =
                           (if t = Some (JStr ''file'') then ''text/plain''
                            else ''application/x-directory''),
                         res_name = p\<rparr>)))"

text \<open>\<^verbatim>\<open>xs.map(f)\<close> for a callback that can throw: the first throw ends the loop.\<close>

fun map_throw :: "('a \<Rightarrow> error + 'b) \<Rightarrow> 'a list \<Rightarrow> error + 'b list" where
  "map_throw f [] = Inr []"
| "map_throw f (x # xs) =
     (case f x of
        Inl e \<Rightarrow> Inl e
      | Inr y \<Rightarrow> (case map_throw f xs of Inl e \<Rightarrow> Inl e | Inr ys \<Rightarrow> Inr (y # ys)))"

definition ListResources_handler :: "runtime \<Rightarrow> Server \<Rightarrow> resource list io" where
  "ListResources_handler rt srv =
     (case listFiles rt srv [] of
        (reqs, Inl e) \<Rightarrow> (reqs, Inl e)
      | (reqs, Inr files) \<Rightarrow> (reqs, map_throw (to_resource rt srv) files))"

text \<open>The first two statements of the read-resource handler: the path it passes to
  \<^verbatim>\<open>getFileContent\<close>.\<close>

definition resource_path :: "runtime \<Rightarrow> string \<Rightarrow> error + string option" where
  "resource_path rt uri =
     (case URL_pathname rt uri of
        None \<Rightarrow> Inl TypeError
      | Some pathname \<Rightarrow> Inr (index (split pathname ''/contents/'') 1))"

definition ReadResource_handler ::
  "runtime \<Rightarrow> Server \<Rightarrow> string \<Rightarrow> resource_contents list io" where
  "ReadResource_handler rt srv uri =
     (case resource_path rt uri of
        Inl e \<Rightarrow> ([], Inl e)
      | Inr path \<Rightarrow>
          (case getFileContent rt srv path of
             (reqs, Inl e) \<Rightarrow> (reqs, Inl e)
           | (reqs, Inr content) \<Rightarrow>
               (reqs, Inr [\<lparr>cont_uri = uri, cont_mimeType = ''text/plain'',
                            cont_text = content\<rparr>])))"

definition ListTools_handler :: "Server \<Rightarrow> json list io" where
  "ListTools_handler srv = ([], Inr [])"

subsection \<open>The process entry point\<close>

text \<open>What \<^verbatim>\<open>runServer\<close> and its \<^verbatim>\<open>catch\<close> write with \<^verbatim>\<open>console.error\<close>, and how the
  start ends: the process exits with a code, or the server is connected. \<open>connect\<close> is
  \<^verbatim>\<open>server.connect(transport)\<close> of the protocol library: the error it rejects with, if
  any.\<close>

datatype stderr_line = Line string | ServerError error

datatype started = Exited nat | Connected Server

definition runServer ::
  "(Server \<Rightarrow> error option) \<Rightarrow> (string \<rightharpoonup> string) \<Rightarrow> stderr_line list \<times> started" where
  "runServer connect env =
     (let GITHUB_PERSONAL_ACCESS_TOKEN = env ''GITHUB_PERSONAL_ACCESS_TOKEN'';
          GITHUB_OWNER = env ''GITHUB_OWNER'';
          GITHUB_REPO = env ''GITHUB_REPO'';
          GITHUB_BRANCH = env ''GITHUB_BRANCH''
      in if \<not> truthy GITHUB_PERSONAL_ACCESS_TOKEN then
           ([Line ''GITHUB_PERSONAL_ACCESS_TOKEN environment variable is not set''], Exited 1)
         else if \<not> truthy GITHUB_OWNER \<or> \<not> truthy GITHUB_REPO then
           ([Line ''GITHUB_OWNER and GITHUB_REPO environment variables are required''],
            Exited 1)
         else
           (case createGithubRepoServer
                   \<lparr>githubPersonalAccessToken = the GITHUB_PERSONAL_ACCESS_TOKEN,
                    owner = the GITHUB_OWNER,
                    repo = the GITHUB_REPO,
                    branch = GITHUB_BRANCH\<rparr> of
              (_, Inl e) \<Rightarrow> ([ServerError e], Exited 1)
            | (_, Inr server) \<Rightarrow>
                (case connect server of
                   Some e \<Rightarrow> ([ServerError e], Exited 1)
                 | None \<Rightarrow> ([Line ''GitHub Repo MCP Server running on stdio''],
                            Connected server))))"

section \<open>The encodings the forge applies\<close>

text \<open>The forge sends a file as the base64 encoding of its bytes, and a text file's bytes
  are the UTF-8 encoding of its text. Both encoders are the standard ones (RFC 4648,
  section 4, with padding; RFC 3629); they are not part of the module, and they state what
  \<open>the base64 encoding of the UTF-8 bytes of a text\<close> means. The base64 alphabet gives
  the values 0 to 25 the letters \<^verbatim>\<open>A\<close> to \<^verbatim>\<open>Z\<close>, 26 to 51 the letters \<^verbatim>\<open>a\<close> to \<^verbatim>\<open>z\<close>,
  52 to 61 the digits, 62 the character \<^verbatim>\<open>+\<close> and 63 the character \<^verbatim>\<open>/\<close>.\<close>

definition base64_char :: "nat \<Rightarrow> char" where
  "base64_char n =
     (if n < 26 then char_of (n + 65)
      else if n < 52 then char_of (n + 71)
      else if n < 62 then char_of (n - 4)
      else if n = 62 then CHR ''+''
      else CHR ''/'')"

fun base64_encode :: "nat list \<Rightarrow> string" where
  "base64_encode (a # b # c # r) =
     base64_char (a div 4) # base64_char ((a mod 4) * 16 + b div 16)
       # base64_char ((b mod 16) * 4 + c div 64) # base64_char (c mod 64) # base64_encode r"
| "base64_encode [a, b] =
     [base64_char (a div 4), base64_char ((a mod 4) * 16 + b div 16),
      base64_char ((b mod 16) * 4), CHR ''='']"
| "base64_encode [a] =
     [base64_char (a div 4), base64_char ((a mod 4) * 16), CHR ''='', CHR ''='']"
| "base64_encode [] = []"

text \<open>A Unicode scalar value: a code point that is not a surrogate. These are the code
  points UTF-8 encodes.\<close>

definition scalar_value :: "nat \<Rightarrow> bool" where
  "scalar_value c = (c < 55296 \<or> (57344 \<le> c \<and> c < 1114112))"

definition utf8_encode_char :: "nat \<Rightarrow> nat list" where
  "utf8_encode_char c =
     (if c < 128 then [c]
      else if c < 2048 then [192 + c div 64, 128 + c mod 64]
      else if c < 65536 then [224 + c div 4096, 128 + (c div 64) mod 64, 128 + c mod 64]
      else [240 + c div 262144, 128 + (c div 4096) mod 64, 128 + (c div 64) mod 64,
            128 + c mod 64])"

definition utf8_encode :: "nat list \<Rightarrow> nat list" where
  "utf8_encode s = concat (map utf8_encode_char s)"

text \<open>The code points of a string of ASCII characters.\<close>

definition code_points :: "string \<Rightarrow> nat list" where
  "code_points s = map of_char s"

section \<open>Concrete inputs\<close>

text \<open>A runtime given by three finite tables: the response to a request by its URL, the
  pathname of a URL, and the \<^verbatim>\<open>href\<close> of a value resolved against a base. Outside the
  tables \<^verbatim>\<open>fetch\<close> rejects and the \<^verbatim>\<open>URL\<close> constructor throws.\<close>

definition table_runtime ::
  "(string \<times> response) list \<Rightarrow> (string \<times> string) list
     \<Rightarrow> ((json option \<times> string) \<times> string) list \<Rightarrow> runtime" where
  "table_runtime responses pathnames hrefs =
     \<lparr>fetch = (\<lambda>r. map_of responses (req_url r)),
      URL_pathname = map_of pathnames,
      URL_href = (\<lambda>x b. map_of hrefs (x, b))\<rparr>"

text \<open>The server for owner \<^verbatim>\<open>acme\<close>, repository \<^verbatim>\<open>widgets\<close> and no branch.\<close>

definition acme_params :: GithubRepoServerParams where
  "acme_params =
     \<lparr>githubPersonalAccessToken = ''t0k'', owner = ''acme'', repo = ''widgets'',
      branch = None\<rparr>"

definition acme_server :: Server where
  "acme_server =
     \<lparr>server_name = ''@loglm/mcp-server-github-repo'',
      server_version = ''0.1.0'',
      capabilities = [''resources'', ''tools''],
      params = acme_params,
      resourceBaseUrl = ''https://api.github.com/repos/acme/widgets/contents/''\<rparr>"

text \<open>A file object as the forge sends it, with the given type, encoding and content.\<close>

definition file_object :: "string \<Rightarrow> string \<Rightarrow> string \<Rightarrow> json" where
  "file_object t e c =
     JObj [(''type'', JStr t), (''encoding'', JStr e), (''size'', JNum 11),
           (''name'', JStr ''README.md''), (''path'', JStr ''README.md''),
           (''content'', JStr c), (''sha'', JStr ''3b18e512''),
           (''url'', JStr ''https://api.github.com/repos/acme/widgets/contents/README.md''),
           (''git_url'', JStr ''https://api.github.com/repos/acme/widgets/git/blobs/3b18e512''),
           (''html_url'', JStr ''https://github.com/acme/widgets/blob/main/README.md''),
           (''download_url'',
            JStr ''https://raw.githubusercontent.com/acme/widgets/main/README.md'')]"

text \<open>A directory entry as the forge sends it in a listing, with the given type and path.\<close>

definition listing_entry :: "string \<Rightarrow> string \<Rightarrow> json" where
  "listing_entry t p =
     JObj [(''type'', JStr t), (''size'', JNum 0), (''name'', JStr p), (''path'', JStr p),
           (''sha'', JStr ''9bb1f2a0''),
           (''url'', JStr (''https://api.github.com/repos/acme/widgets/contents/'' @ p)),
           (''git_url'', JStr ''https://api.github.com/repos/acme/widgets/git/trees/9bb1f2a0''),
           (''html_url'', JStr (''https://github.com/acme/widgets/tree/main/'' @ p)),
           (''download_url'', JNull)]"

text \<open>A small world: the repository \<^verbatim>\<open>acme/widgets\<close> holds the file \<^verbatim>\<open>README.md\<close>
  with the text \<^verbatim>\<open>hello world\<close>, the symbolic link \<^verbatim>\<open>link\<close>, the directory \<^verbatim>\<open>src\<close> and
  the file \<^verbatim>\<open>docs/contents/intro.md\<close>; nothing is at \<^verbatim>\<open>missing\<close>. The tables give the
  forge's responses and the values of the \<^verbatim>\<open>URL\<close> class on the URLs used below.\<close>

definition acme_runtime :: runtime where
  "acme_runtime =
     table_runtime
       [(''https://api.github.com/repos/acme/widgets/contents/'',
         \<lparr>ok = True, statusText = ''OK'',
          body = Some (JArr [listing_entry ''file'' ''README.md'',
                             listing_entry ''dir'' ''src''])\<rparr>),
        (''https://api.github.com/repos/acme/widgets/contents/README.md'',
         \<lparr>ok = True, statusText = ''OK'',
          body = Some (file_object ''file'' ''base64'' ''aGVsbG8gd29ybGQ='')\<rparr>),
        (''https://api.github.com/repos/acme/widgets/contents/link'',
         \<lparr>ok = True, statusText = ''OK'',
          body = Some (file_object ''symlink'' ''none'' ''aGVsbG8gd29ybGQ='')\<rparr>),
        (''https://api.github.com/repos/acme/widgets/contents/src'',
         \<lparr>ok = True, statusText = ''OK'',
          body = Some (JArr [listing_entry ''file'' ''src/index.ts''])\<rparr>),
        (''https://api.github.com/repos/acme/widgets/contents/docs'',
         \<lparr>ok = True, statusText = ''OK'',
          body = Some (JArr [listing_entry ''dir'' ''docs/contents''])\<rparr>),
        (''https://api.github.com/repos/acme/widgets/contents/missing'',
         \<lparr>ok = False, statusText = ''Not Found'',
          body = Some (JObj [(''message'', JStr ''Not Found'')])\<rparr>)]
       [(''https://api.github.com/repos/acme/widgets/contents/README.md'',
         ''/repos/acme/widgets/contents/README.md''),
        (''https://api.github.com/repos/acme/widgets/contents/docs/contents/intro.md'',
         ''/repos/acme/widgets/contents/docs/contents/intro.md'')]
       [((Some (JStr ''README.md''), ''https://api.github.com/repos/acme/widgets/contents/''),
         ''https://api.github.com/repos/acme/widgets/contents/README.md''),
        ((Some (JStr ''src''), ''https://api.github.com/repos/acme/widgets/contents/''),
         ''https://api.github.com/repos/acme/widgets/contents/src'')]"

text \<open>The same forge, answering the root listing with an array whose second element is
  \<^verbatim>\<open>null\<close>.\<close>

definition null_entry_runtime :: runtime where
  "null_entry_runtime =
     table_runtime
       [(''https://api.github.com/repos/acme/widgets/contents/'',
         \<lparr>ok = True, statusText = ''OK'',
          body = Some (JArr [listing_entry ''file'' ''README.md'', JNull])\<rparr>)]
       []
       [((Some (JStr ''README.md''), ''https://api.github.com/repos/acme/widgets/contents/''),
         ''https://api.github.com/repos/acme/widgets/contents/README.md'')]"

text \<open>A process environment with every variable set, and a \<^verbatim>\<open>connect\<close> that succeeds.\<close>

definition acme_env :: "string \<rightharpoonup> string" where
  "acme_env =
     [''GITHUB_PERSONAL_ACCESS_TOKEN'' \<mapsto> ''t0k'', ''GITHUB_OWNER'' \<mapsto> ''acme'',
      ''GITHUB_REPO'' \<mapsto> ''widgets'', ''GITHUB_BRANCH'' \<mapsto> ''dev'']"

definition connect_ok :: "Server \<Rightarrow> error option" where
  "connect_ok server = None"

section \<open>What the operations do, case by case\<close>

lemma listFiles_requests: "fst (listFiles rt srv path) = [contents_request srv path]"
  by (simp add: listFiles_def Let_def split: option.split)

lemma getFileContent_requests:
  "fst (getFileContent rt srv path) = [contents_request srv (template_str path)]"
  by (simp add: getFileContent_def Let_def split: option.split sum.split GitHubContent.split)

lemma contents_request_url:
  "req_url (contents_request srv path) =
     ''https://api.github.com/repos/'' @ owner (params srv) @ ''/'' @ repo (params srv)
       @ ''/contents/'' @ path
       @ (if truthy (branch (params srv)) then ''?ref='' @ template_str (branch (params srv))
          else [])"
  by (simp add: contents_request_def Let_def)

lemma listFiles_ok:
  assumes "fetch rt (contents_request srv path) = Some resp" and "ok resp"
    and "body resp = Some j"
  shows "listFiles rt srv path =
           ([contents_request srv path], Inr (case j of JArr xs \<Rightarrow> xs | _ \<Rightarrow> [j]))"
  using assms by (simp add: listFiles_def Let_def)

lemma listFiles_not_ok:
  assumes "fetch rt (contents_request srv path) = Some resp" and "\<not> ok resp"
  shows "listFiles rt srv path =
           ([contents_request srv path],
            Inl (Error (''GitHub API error: '' @ statusText resp)))"
  using assms by (simp add: listFiles_def Let_def)

lemma getFileContent_not_ok:
  assumes "fetch rt (contents_request srv (template_str path)) = Some resp" and "\<not> ok resp"
  shows "getFileContent rt srv path =
           ([contents_request srv (template_str path)],
            Inl (Error (''GitHub API error: '' @ statusText resp)))"
  using assms by (simp add: getFileContent_def Let_def)

lemma getFileContent_ok:
  assumes "fetch rt (contents_request srv (template_str path)) = Some resp" and "ok resp"
    and "body resp = Some j"
  shows "getFileContent rt srv path =
           ([contents_request srv (template_str path)],
            case GitHubContentSchema_parse j of
              Inl e \<Rightarrow> Inl e
            | Inr (DirectoryContents ds) \<Rightarrow>
                Inl (Error ''Path points to a directory, not a file'')
            | Inr (FileContent data) \<Rightarrow> Inr (Buffer_base64_utf8 (fc_content data)))"
  using assms
  by (simp add: getFileContent_def Let_def split: sum.split GitHubContent.split)

lemma parse_file:
  "GitHubFileContentSchema j = Some data \<Longrightarrow>
     GitHubContentSchema_parse j = Inr (FileContent data)"
  by (simp add: GitHubContentSchema_parse_def)

lemma z_string_Some: "z_string v = Some s \<longleftrightarrow> v = Some (JStr s)"
  by (auto simp add: z_string_def split: option.splits json.splits)

lemma file_schema_content:
  "GitHubFileContentSchema (JObj kvs) = Some data \<Longrightarrow>
     map_of kvs ''content'' = Some (JStr (fc_content data))"
  by (clarsimp simp add: GitHubFileContentSchema_def bind_eq_Some_conv z_string_Some)

lemma map_throw_Inr:
  "\<forall>x \<in> set xs. \<exists>y. f x = Inr y \<Longrightarrow>
     \<exists>ys. map_throw f xs = Inr ys \<and> length ys = length xs
          \<and> (\<forall>i < length xs. f (xs ! i) = Inr (ys ! i))"
proof (induction xs)
  case Nil
  then show ?case by simp
next
  case (Cons x xs)
  from Cons.prems obtain y where y: "f x = Inr y"
    by auto
  from Cons obtain ys where ys: "map_throw f xs = Inr ys" "length ys = length xs"
      "\<forall>i < length xs. f (xs ! i) = Inr (ys ! i)"
    by auto
  have "\<forall>i < length (x # xs). f ((x # xs) ! i) = Inr ((y # ys) ! i)"
    using y ys(3) by (simp add: nth_Cons split: nat.split)
  with y ys(1,2) show ?case
    by simp
qed

lemma to_resource_Inr:
  assumes "file \<noteq> JNull"
    and "URL_href rt (property file ''path'') (resourceBaseUrl srv) = Some href"
  shows "to_resource rt srv file =
           Inr \<lparr>res_uri = href,
                res_mimeType =
                  (if property file ''type'' = Some (JStr ''file'') then ''text/plain''
                   else ''application/x-directory''),
                res_name = property file ''path''\<rparr>"
proof -
  from assms(1) have "get_prop file k = Inr (property file k)" for k
    by (cases "file") (simp_all add: get_prop_def)
  with assms(2) show ?thesis
    by (simp add: to_resource_def)
qed

lemma created_server:
  assumes "createGithubRepoServer p = (reqs, Inr srv)"
  shows "srv =
           \<lparr>server_name = ''@loglm/mcp-server-github-repo'',
            server_version = ''0.1.0'',
            capabilities = [''resources'', ''tools''],
            params = p,
            resourceBaseUrl =
              ''https://api.github.com/repos/'' @ owner p @ ''/'' @ repo p @ ''/contents/''\<rparr>"
  using assms by (simp add: createGithubRepoServer_def split: if_splits)

lemma started_server:
  assumes "runServer connect env = (out, Connected srv)"
  shows "createGithubRepoServer
           \<lparr>githubPersonalAccessToken = the (env ''GITHUB_PERSONAL_ACCESS_TOKEN''),
            owner = the (env ''GITHUB_OWNER''),
            repo = the (env ''GITHUB_REPO''),
            branch = env ''GITHUB_BRANCH''\<rparr> = ([], Inr srv)"
proof -
  let ?p = "\<lparr>githubPersonalAccessToken = the (env ''GITHUB_PERSONAL_ACCESS_TOKEN''),
             owner = the (env ''GITHUB_OWNER''),
             repo = the (env ''GITHUB_REPO''),
             branch = env ''GITHUB_BRANCH''\<rparr>"
  obtain reqs res where c: "createGithubRepoServer ?p = (reqs, res)"
    by (cases "createGithubRepoServer ?p")
  have "reqs = []"
    using c by (simp add: createGithubRepoServer_def split: if_splits)
  moreover have "res = Inr srv"
    using assms c
    by (simp add: runServer_def Let_def split: if_splits sum.splits option.splits)
  ultimately show ?thesis
    using c by simp
qed

lemma same_requests_same_results:
  assumes "\<And>path. contents_request s1 path = contents_request s0 path"
    and "resourceBaseUrl s1 = resourceBaseUrl s0"
  shows "listFiles rt s1 path = listFiles rt s0 path"
    and "getFileContent rt s1 fp = getFileContent rt s0 fp"
    and "ListResources_handler rt s1 = ListResources_handler rt s0"
    and "ReadResource_handler rt s1 uri = ReadResource_handler rt s0 uri"
proof -
  show l: "listFiles rt s1 path = listFiles rt s0 path" for path
    by (simp add: listFiles_def assms(1))
  show g: "getFileContent rt s1 fp = getFileContent rt s0 fp" for fp
    by (simp add: getFileContent_def assms(1))
  have "to_resource rt s1 entry = to_resource rt s0 entry" for entry
    unfolding to_resource_def assms(2) by (rule refl)
  then have "to_resource rt s1 = to_resource rt s0"
    by (rule ext)
  then show "ListResources_handler rt s1 = ListResources_handler rt s0"
    unfolding ListResources_handler_def l by simp
  show "ReadResource_handler rt s1 uri = ReadResource_handler rt s0 uri"
    unfolding ReadResource_handler_def g by (rule refl)
qed

section \<open>Decoding inverts encoding\<close>

subsection \<open>Base64\<close>

lemma is_pad: "c = CHR ''='' \<longleftrightarrow> of_char c = (61::nat)"
proof -
  have "of_char (CHR ''='') = (61::nat)"
    by simp
  then show ?thesis
    by (metis of_char_eq_iff)
qed

lemma unbase64_base64_char:
  assumes "n < 64"
  shows "unbase64 (base64_char n) = Some n" and "base64_char n \<noteq> CHR ''=''"
  using assms by (simp_all add: unbase64_def base64_char_def is_pad Let_def) arith+

lemma base64_sextets_char:
  "n < 64 \<Longrightarrow> base64_sextets (base64_char n # cs) = n # base64_sextets cs"
  by (simp add: unbase64_base64_char)

lemma pack_div_mod:
  fixes k x m :: nat
  assumes "x < m"
  shows "(k * m + x) div m = k" and "(k * m + x) mod m = x"
  using assms by simp_all

lemma pack_less:
  fixes x y m n :: nat
  assumes "x < n" and "y < m"
  shows "x * m + y < n * m"
proof -
  from assms(1) have "Suc x \<le> n"
    by simp
  then have "Suc x * m \<le> n * m"
    by (rule mult_le_mono1)
  with assms(2) show ?thesis
    by simp
qed

lemma byte_parts:
  fixes b :: nat
  assumes "b < 256"
  shows "b div 4 < 64" and "b div 16 < 16" and "b div 64 < 4"
  using assms by simp_all

lemma sextets_of_three:
  fixes a b c :: nat
  assumes "b < 256" and "c < 256"
  shows "(a mod 4) * 16 + b div 16 < 64" and "(b mod 16) * 4 + c div 64 < 64"
    and "(b mod 16) * 4 < 64" and "(a mod 4) * 16 < 64"
proof -
  show "(a mod 4) * 16 + b div 16 < 64"
    using pack_less [of "a mod 4" 4 "b div 16" 16] byte_parts [OF assms(1)] by simp
  show "(b mod 16) * 4 + c div 64 < 64"
    using pack_less [of "b mod 16" 16 "c div 64" 4] byte_parts [OF assms(2)] by simp
  show "(b mod 16) * 4 < 64"
    using pack_less [of "b mod 16" 16 0 4] by simp
  show "(a mod 4) * 16 < 64"
    using pack_less [of "a mod 4" 4 0 16] by simp
qed

lemma bytes_of_four:
  fixes a b c :: nat
  assumes "b < 256" and "c < 256"
  shows "(a div 4) * 4 + ((a mod 4) * 16 + b div 16) div 16 = a"
    and "(((a mod 4) * 16 + b div 16) mod 16) * 16 + ((b mod 16) * 4 + c div 64) div 4 = b"
    and "(((b mod 16) * 4 + c div 64) mod 4) * 64 + c mod 64 = c"
  by (simp_all add: pack_div_mod byte_parts [OF assms(1)] byte_parts [OF assms(2)])

lemma bytes_of_three:
  fixes a b :: nat
  assumes "b < 256"
  shows "(((a mod 4) * 16 + b div 16) mod 16) * 16 + ((b mod 16) * 4) div 4 = b"
  by (simp add: pack_div_mod byte_parts [OF assms])

lemma bytes_of_two:
  fixes a :: nat
  shows "(a div 4) * 4 + ((a mod 4) * 16) div 16 = a"
  by simp

lemma sextets_bytes_encode:
  "\<forall>b \<in> set bs. b < 256 \<Longrightarrow>
     sextets_bytes (base64_sextets (base64_encode bs)) = bs"
proof (induction bs rule: base64_encode.induct)
  case (1 a b c r)
  then have lt: "a < 256" "b < 256" "c < 256"
    by simp_all
  from 1 have ih: "sextets_bytes (base64_sextets (base64_encode r)) = r"
    by simp
  have "base64_sextets (base64_encode (a # b # c # r)) =
          a div 4 # ((a mod 4) * 16 + b div 16) # ((b mod 16) * 4 + c div 64) # c mod 64
            # base64_sextets (base64_encode r)"
    by (simp add: base64_sextets_char byte_parts [OF lt(1)] sextets_of_three [OF lt(2,3)]
          del: base64_sextets.simps)
  then show ?case
    by (simp only: sextets_bytes.simps bytes_of_four [OF lt(2,3)] ih)
next
  case (2 a b)
  then have lt: "a < 256" "b < 256"
    by simp_all
  have "base64_sextets (base64_encode [a, b]) =
          [a div 4, (a mod 4) * 16 + b div 16, (b mod 16) * 4]"
    by (simp add: base64_sextets_char [of _ "CHR ''='' # _"] base64_sextets_char [of _ "base64_char _ # _"]
          byte_parts [OF lt(1)] sextets_of_three [OF lt(2) lt(2)]
          del: base64_sextets.simps) simp
  then show ?case
    by (simp only: sextets_bytes.simps bytes_of_four(1) [OF lt(2) lt(2)]
          bytes_of_three [OF lt(2)])
next
  case (3 a)
  then have lt: "a < 256"
    by simp
  have "base64_sextets (base64_encode [a]) = [a div 4, (a mod 4) * 16]"
    by (simp add: base64_sextets_char [of _ "CHR ''='' # _"] base64_sextets_char [of _ "base64_char _ # _"]
          byte_parts [OF lt] sextets_of_three [OF lt lt]
          del: base64_sextets.simps) simp
  then show ?case
    by (simp only: sextets_bytes.simps bytes_of_two)
next
  case 4
  show ?case by simp
qed

lemma base64_roundtrip:
  "\<forall>b \<in> set bs. b < 256 \<Longrightarrow> base64_decode (base64_encode bs) = bs"
  by (simp add: base64_decode_def sextets_bytes_encode)

subsection \<open>UTF-8\<close>

lemma div_mod_parts:
  fixes d :: nat
  shows "d = (d div 64) * 64 + d mod 64"
  by simp

lemma scale_sum:
  fixes x y :: nat
  shows "x * 4096 + y * 64 = (x * 64 + y) * 64"
    and "x * 262144 + y * 4096 = (x * 64 + y) * 4096"
  by simp_all

lemma join3: "(c div 4096) * 4096 + ((c div 64) mod 64) * 64 + c mod 64 = (c::nat)"
proof -
  have "c div 4096 = (c div 64) div 64"
    by (simp add: div_mult2_eq)
  then have "(c div 4096) * 4096 + ((c div 64) mod 64) * 64 =
               ((c div 64) div 64 * 64 + (c div 64) mod 64) * 64"
    by (simp only: scale_sum)
  also have "\<dots> = (c div 64) * 64"
    by (simp only: div_mult_mod_eq)
  finally show ?thesis
    by (simp only: div_mult_mod_eq)
qed

lemma join4:
  "(c div 262144) * 262144 + ((c div 4096) mod 64) * 4096 + ((c div 64) mod 64) * 64
     + c mod 64 = (c::nat)"
proof -
  have "c div 262144 = (c div 4096) div 64"
    by (simp add: div_mult2_eq)
  then have "(c div 262144) * 262144 + ((c div 4096) mod 64) * 4096 =
               ((c div 4096) div 64 * 64 + (c div 4096) mod 64) * 4096"
    by (simp only: scale_sum)
  also have "\<dots> = (c div 4096) * 4096"
    by (simp only: div_mult_mod_eq)
  finally show ?thesis
    by (simp only: join3)
qed

lemma lead2:
  fixes c :: nat
  assumes "128 \<le> c" and "c < 2048"
  shows "2 \<le> c div 64" and "c div 64 < 32"
  using assms by simp_all

lemma parts_linear:
  fixes d q m :: nat
  assumes "d = q * 64 + m"
  shows "q = 0 \<Longrightarrow> k \<le> d \<Longrightarrow> k \<le> m"
    and "q = 13 \<Longrightarrow> d < 864 \<Longrightarrow> m < 32"
    and "q = 4 \<Longrightarrow> d < 272 \<Longrightarrow> m < 16"
  using assms by simp_all

lemma lead3:
  fixes c :: nat
  assumes "2048 \<le> c" and "c < 65536"
  shows "c div 4096 < 16"
    and "c div 4096 = 0 \<Longrightarrow> 32 \<le> (c div 64) mod 64"
    and "c div 4096 = 13 \<Longrightarrow> c < 55296 \<Longrightarrow> (c div 64) mod 64 < 32"
proof -
  have q: "c div 4096 = (c div 64) div 64"
    by (simp add: div_mult2_eq)
  show "c div 4096 < 16"
    using assms(2) by simp
  have lo: "32 \<le> c div 64"
    using assms(1) by simp
  show "32 \<le> (c div 64) mod 64" if "c div 4096 = 0"
    using parts_linear(1) [OF div_mod_parts [of "c div 64"], of 32] that lo
    unfolding q by simp
  have hi: "c div 64 < 864" if "c < 55296"
    using that by simp
  show "(c div 64) mod 64 < 32" if "c div 4096 = 13" and "c < 55296"
    using parts_linear(2) [OF div_mod_parts [of "c div 64"]] that(1) hi [OF that(2)]
    unfolding q by simp
qed

lemma lead4:
  fixes c :: nat
  assumes "65536 \<le> c" and "c < 1114112"
  shows "c div 262144 < 5"
    and "c div 262144 = 0 \<Longrightarrow> 16 \<le> (c div 4096) mod 64"
    and "c div 262144 = 4 \<Longrightarrow> (c div 4096) mod 64 < 16"
proof -
  have q: "c div 262144 = (c div 4096) div 64"
    by (simp add: div_mult2_eq)
  show "c div 262144 < 5"
    using assms(2) by simp
  have lo: "16 \<le> c div 4096"
    using assms(1) by simp
  show "16 \<le> (c div 4096) mod 64" if "c div 262144 = 0"
    using parts_linear(1) [OF div_mod_parts [of "c div 4096"], of 16] that lo
    unfolding q by simp
  have hi: "c div 4096 < 272"
    using assms(2) by simp
  show "(c div 4096) mod 64 < 16" if "c div 262144 = 4"
    using parts_linear(3) [OF div_mod_parts [of "c div 4096"]] that hi
    unfolding q by simp
qed

lemma cont_byte: "is_cont (128 + x mod 64)"
proof -
  have "x mod 64 < 64"
    by simp
  then show ?thesis
    unfolding is_cont_def by linarith
qed

lemma decode_one:
  assumes "c < 128"
  shows "utf8_decode (utf8_encode_char c @ bs) = c # utf8_decode bs"
  using assms by (simp add: utf8_encode_char_def)

lemma decode_two:
  assumes "128 \<le> c" and "c < 2048"
  shows "utf8_decode (utf8_encode_char c @ bs) = c # utf8_decode bs"
proof -
  let ?l = "192 + c div 64" and ?t = "128 + c mod 64"
  have enc: "utf8_encode_char c = [?l, ?t]"
    using assms by (simp add: utf8_encode_char_def)
  have l: "\<not> ?l < 128" "194 \<le> ?l" "?l \<le> 223"
    using lead2 [OF assms] by simp_all
  have v: "(?l - 192) * 64 + (?t - 128) = c"
    by simp
  show ?thesis
    unfolding enc by (simp add: l cont_byte v del: add_diff_cancel_left')
qed

lemma decode_three:
  assumes "2048 \<le> c" and "c < 65536" and "scalar_value c"
  shows "utf8_decode (utf8_encode_char c @ bs) = c # utf8_decode bs"
proof -
  let ?l = "224 + c div 4096" and ?m = "128 + (c div 64) mod 64" and ?t = "128 + c mod 64"
  have enc: "utf8_encode_char c = [?l, ?m, ?t]"
    using assms by (simp add: utf8_encode_char_def)
  note q = lead3 [OF assms(1,2)]
  have l: "\<not> ?l < 128" "\<not> (194 \<le> ?l \<and> ?l \<le> 223)" "224 \<le> ?l" "?l \<le> 239"
    using q(1) by simp_all
  have s: "second_ok ?l ?m"
  proof -
    consider "c div 4096 = 0" | "c div 4096 = 13" | "c div 4096 \<noteq> 0" "c div 4096 \<noteq> 13"
      by blast
    then show ?thesis
    proof cases
      case 1
      with q(2) show ?thesis
        by (simp add: second_ok_def)
    next
      case 2
      then have "c div 4096 < 14"
        by simp
      then have "c < 57344"
        by simp
      with assms(3) have "c < 55296"
        by (simp add: scalar_value_def)
      with q(3) 2 show ?thesis
        by (simp add: second_ok_def)
    next
      case 3
      with q(1) show ?thesis
        using cont_byte [of "c div 64"] by (simp add: second_ok_def)
    qed
  qed
  show ?thesis
    unfolding enc by (simp add: l s cont_byte) (rule join3)
qed

lemma decode_four:
  assumes "65536 \<le> c" and "c < 1114112"
  shows "utf8_decode (utf8_encode_char c @ bs) = c # utf8_decode bs"
proof -
  let ?l = "240 + c div 262144" and ?n = "128 + (c div 4096) mod 64"
    and ?m = "128 + (c div 64) mod 64" and ?t = "128 + c mod 64"
  have enc: "utf8_encode_char c = [?l, ?n, ?m, ?t]"
    using assms by (simp add: utf8_encode_char_def)
  note q = lead4 [OF assms]
  have l: "\<not> ?l < 128" "\<not> (194 \<le> ?l \<and> ?l \<le> 223)" "\<not> (224 \<le> ?l \<and> ?l \<le> 239)"
      "240 \<le> ?l" "?l \<le> 244"
    using q(1) by simp_all
  have s: "second_ok ?l ?n"
  proof -
    consider "c div 262144 = 0" | "c div 262144 = 4"
      | "c div 262144 \<noteq> 0" "c div 262144 \<noteq> 4"
      by blast
    then show ?thesis
    proof cases
      case 1
      with q(2) show ?thesis
        by (simp add: second_ok_def)
    next
      case 2
      with q(3) show ?thesis
        by (simp add: second_ok_def)
    next
      case 3
      then show ?thesis
        using cont_byte [of "c div 4096"] by (simp add: second_ok_def)
    qed
  qed
  show ?thesis
    unfolding enc by (simp add: l s cont_byte) (rule join4)
qed

lemma utf8_decode_encode_char:
  assumes "scalar_value c"
  shows "utf8_decode (utf8_encode_char c @ bs) = c # utf8_decode bs"
proof -
  consider "c < 128" | "128 \<le> c" "c < 2048" | "2048 \<le> c" "c < 65536"
    | "65536 \<le> c" "c < 1114112"
    using assms unfolding scalar_value_def by linarith
  then show ?thesis
    using assms by cases (simp_all add: decode_one decode_two decode_three decode_four)
qed

lemma utf8_roundtrip:
  "\<forall>c \<in> set s. scalar_value c \<Longrightarrow> utf8_decode (utf8_encode s) = s"
  by (induction s) (simp_all add: utf8_encode_def utf8_decode_encode_char)

lemma utf8_encode_char_bytes:
  assumes "scalar_value c"
  shows "\<forall>b \<in> set (utf8_encode_char c). b < 256"
proof -
  have m: "128 + x mod 64 < 256" for x :: nat
    using cont_byte [of x] unfolding is_cont_def by linarith
  consider "c < 128" | "128 \<le> c" "c < 2048" | "2048 \<le> c" "c < 65536"
    | "65536 \<le> c" "c < 1114112"
    using assms unfolding scalar_value_def by linarith
  then show ?thesis
  proof cases
    case 1
    then show ?thesis by (simp add: utf8_encode_char_def)
  next
    case 2
    with lead2 [OF 2] show ?thesis by (simp add: utf8_encode_char_def m)
  next
    case 3
    with lead3(1) [OF 3] show ?thesis by (simp add: utf8_encode_char_def m)
  next
    case 4
    with lead4(1) [OF 4] show ?thesis by (simp add: utf8_encode_char_def m)
  qed
qed

lemma utf8_encode_bytes:
  "\<forall>c \<in> set s. scalar_value c \<Longrightarrow> \<forall>b \<in> set (utf8_encode s). b < 256"
  using utf8_encode_char_bytes by (auto simp add: utf8_encode_def)

section \<open>The path of a resource URI\<close>

text \<open>When \<^verbatim>\<open>/contents/\<close> occurs exactly once in the pathname, element 1 of the split is
  everything after it, and a successful read echoes the URI it was given.\<close>

lemma split_nonempty_absent:
  assumes "\<not> sublist sep xs"
  shows "split_nonempty sep xs = [xs]"
  using assms
proof (induction xs)
  case Nil
  show ?case by simp
next
  case (Cons c cs)
  from Cons.prems have np: "\<not> prefix sep (c # cs)" and "\<not> sublist sep cs"
    by (simp_all add: sublist_Cons_right)
  with Cons.IH have "split_nonempty sep cs = [cs]"
    by simp
  with np show ?case
    by simp
qed

lemma prefix_before_last:
  assumes "sep \<noteq> []" and "prefix sep (p # pre @ sep @ rest)"
  shows "prefix sep (p # pre @ butlast sep)"
proof -
  have "sep @ rest = (butlast sep @ [last sep]) @ rest"
    by (simp only: append_butlast_last_id [OF assms(1)])
  also have "\<dots> = butlast sep @ last sep # rest"
    by simp
  finally have "p # pre @ sep @ rest = (p # pre @ butlast sep) @ last sep # rest"
    by simp
  then have "prefix (p # pre @ butlast sep) (p # pre @ sep @ rest)"
    by (simp only: prefixI)
  moreover have "length sep \<le> length (p # pre @ butlast sep)"
    by simp
  ultimately show ?thesis
    using assms(2) by (rule prefix_length_prefix [rotated])
qed

lemma split_nonempty_once:
  assumes "sep \<noteq> []" and "\<not> sublist sep (pre @ butlast sep)" and "\<not> sublist sep rest"
  shows "split_nonempty sep (pre @ sep @ rest) = [pre, rest]"
  using assms(2)
proof (induction pre)
  case Nil
  from assms(1) obtain c sep' where sep: "sep = c # sep'"
    by (cases sep) auto
  have "split_nonempty sep (sep @ rest) = [] # split_nonempty sep rest"
    unfolding sep by simp
  then show ?case
    by (simp add: split_nonempty_absent [OF assms(3)])
next
  case (Cons p pre)
  from Cons.prems have ns: "\<not> prefix sep (p # pre @ butlast sep)"
    and "\<not> sublist sep (pre @ butlast sep)"
    by (simp_all add: sublist_Cons_right)
  with Cons.IH have ih: "split_nonempty sep (pre @ sep @ rest) = [pre, rest]"
    by simp
  from ns have "\<not> prefix sep (p # pre @ sep @ rest)"
    using prefix_before_last [OF assms(1)] by blast
  with ih show ?case
    by simp
qed

lemma resource_path_once:
  assumes "URL_pathname rt uri = Some (pre @ ''/contents/'' @ rest)"
    and "\<not> sublist ''/contents/'' (pre @ ''/contents'')"
    and "\<not> sublist ''/contents/'' rest"
  shows "resource_path rt uri = Inr (Some rest)"
proof -
  have "butlast ''/contents/'' = ''/contents''"
    by simp
  with assms(2) have "split_nonempty ''/contents/'' (pre @ ''/contents/'' @ rest) = [pre, rest]"
    using split_nonempty_once [of "''/contents/''" pre rest] assms(3) by simp
  with assms(1) show ?thesis
    by (simp add: resource_path_def split_def index_def)
qed

lemma read_resource_echo:
  assumes "ReadResource_handler rt srv uri = (reqs, Inr contents)"
  shows "\<exists>content. contents =
           [\<lparr>cont_uri = uri, cont_mimeType = ''text/plain'', cont_text = content\<rparr>]"
  using assms
  by (auto simp add: ReadResource_handler_def split: sum.splits prod.splits)

section \<open>The small world, evaluated\<close>

lemma acme_server_created: "createGithubRepoServer acme_params = ([], Inr acme_server)"
  by (simp add: createGithubRepoServer_def acme_params_def acme_server_def)

lemma acme_request:
  "contents_request acme_server path =
     \<lparr>req_url = ''https://api.github.com/repos/acme/widgets/contents/'' @ path,
      req_headers =
        [(''Authorization'', ''token t0k''),
         (''Accept'', ''application/vnd.github.v3+json''),
         (''User-Agent'', ''mcp-server-github-repo'')]\<rparr>"
  by (simp add: contents_request_def acme_server_def acme_params_def truthy_def)

lemma table_fetch:
  "fetch (table_runtime responses pathnames hrefs) r = map_of responses (req_url r)"
  by (simp add: table_runtime_def)

lemma acme_fetch:
  "fetch acme_runtime (contents_request acme_server path) =
     map_of
       [([], \<lparr>ok = True, statusText = ''OK'',
          body = Some (JArr [listing_entry ''file'' ''README.md'',
                             listing_entry ''dir'' ''src''])\<rparr>),
        (''README.md'',
         \<lparr>ok = True, statusText = ''OK'',
          body = Some (file_object ''file'' ''base64'' ''aGVsbG8gd29ybGQ='')\<rparr>),
        (''link'',
         \<lparr>ok = True, statusText = ''OK'',
          body = Some (file_object ''symlink'' ''none'' ''aGVsbG8gd29ybGQ='')\<rparr>),
        (''src'',
         \<lparr>ok = True, statusText = ''OK'',
          body = Some (JArr [listing_entry ''file'' ''src/index.ts''])\<rparr>),
        (''docs'',
         \<lparr>ok = True, statusText = ''OK'',
          body = Some (JArr [listing_entry ''dir'' ''docs/contents''])\<rparr>),
        (''missing'',
         \<lparr>ok = False, statusText = ''Not Found'',
          body = Some (JObj [(''message'', JStr ''Not Found'')])\<rparr>)] path"
  by (simp add: acme_request table_fetch acme_runtime_def)

lemma file_object_valid:
  "GitHubFileContentSchema (file_object t e c) =
     Some \<lparr>fc_type = t, fc_encoding = e, fc_size = 11, fc_name = ''README.md'',
           fc_path = ''README.md'', fc_content = c, fc_sha = ''3b18e512'',
           fc_url = ''https://api.github.com/repos/acme/widgets/contents/README.md'',
           fc_git_url = ''https://api.github.com/repos/acme/widgets/git/blobs/3b18e512'',
           fc_html_url = ''https://github.com/acme/widgets/blob/main/README.md'',
           fc_download_url =
             ''https://raw.githubusercontent.com/acme/widgets/main/README.md''\<rparr>"
  by (simp add: GitHubFileContentSchema_def file_object_def z_string_def z_number_def)

lemma listing_entry_valid:
  "GitHubDirectoryContentSchema (listing_entry t p) =
     Some \<lparr>dc_type = t, dc_size = 0, dc_name = p, dc_path = p, dc_sha = ''9bb1f2a0'',
           dc_url = ''https://api.github.com/repos/acme/widgets/contents/'' @ p,
           dc_git_url = ''https://api.github.com/repos/acme/widgets/git/trees/9bb1f2a0'',
           dc_html_url = ''https://github.com/acme/widgets/tree/main/'' @ p,
           dc_download_url = None\<rparr>"
  by (simp add: GitHubDirectoryContentSchema_def listing_entry_def z_string_def z_number_def
        z_string_nullable_def)

lemma listing_parsed:
  "GitHubContentSchema_parse (JArr [listing_entry t p]) =
     Inr (DirectoryContents
       [\<lparr>dc_type = t, dc_size = 0, dc_name = p, dc_path = p, dc_sha = ''9bb1f2a0'',
         dc_url = ''https://api.github.com/repos/acme/widgets/contents/'' @ p,
         dc_git_url = ''https://api.github.com/repos/acme/widgets/git/trees/9bb1f2a0'',
         dc_html_url = ''https://github.com/acme/widgets/tree/main/'' @ p,
         dc_download_url = None\<rparr>])"
  by (simp add: GitHubContentSchema_parse_def GitHubFileContentSchema_def listing_entry_valid)

lemma hello_world_decoded:
  "utf8_decode (base64_decode ''aGVsbG8gd29ybGQ='') = code_points ''hello world''"
  by (simp add: base64_decode_def unbase64_def code_points_def is_cont_def)

lemma hello_world_encoded:
  "base64_encode (utf8_encode (code_points ''hello world'')) = ''aGVsbG8gd29ybGQ=''"
  by (simp add: utf8_encode_def utf8_encode_char_def code_points_def base64_char_def
        char_of_eq_iff take_bit_eq_mod)

lemma split_intro:
  "split ''/repos/acme/widgets/contents/docs/contents/intro.md'' ''/contents/'' =
     [''/repos/acme/widgets'', ''docs'', ''intro.md'']"
  by (simp add: split_def)

lemma split_readme:
  "split ''/repos/acme/widgets/contents/README.md'' ''/contents/'' =
     [''/repos/acme/widgets'', ''README.md'']"
  by (simp add: split_def)

lemma read_resource_readme:
  "ReadResource_handler acme_runtime acme_server
     ''https://api.github.com/repos/acme/widgets/contents/README.md''
   = ([contents_request acme_server ''README.md''],
      Inr [\<lparr>cont_uri = ''https://api.github.com/repos/acme/widgets/contents/README.md'',
            cont_mimeType = ''text/plain'',
            cont_text = code_points ''hello world''\<rparr>])"
proof -
  have p: "resource_path acme_runtime
             ''https://api.github.com/repos/acme/widgets/contents/README.md''
           = Inr (Some ''README.md'')"
    by (simp add: resource_path_def acme_runtime_def table_runtime_def split_readme index_def)
  have f: "fetch acme_runtime (contents_request acme_server (template_str (Some ''README.md'')))
             = Some \<lparr>ok = True, statusText = ''OK'',
                 body = Some (file_object ''file'' ''base64'' ''aGVsbG8gd29ybGQ='')\<rparr>"
    by (simp add: acme_fetch template_str_def)
  have "getFileContent acme_runtime acme_server (Some ''README.md'') =
          ([contents_request acme_server ''README.md''], Inr (code_points ''hello world''))"
    by (simp add: getFileContent_ok [OF f] parse_file [OF file_object_valid]
          Buffer_base64_utf8_def hello_world_decoded template_str_def)
  with p show ?thesis
    by (simp add: ReadResource_handler_def)
qed

section \<open>The claims\<close>

subsection \<open>C1: the path read-resource extracts\<close>

text \<open>C1 says that for every resource URI the path given to \<^verbatim>\<open>getFileContent\<close> is everything
  after \<^verbatim>\<open>/contents/\<close> in the URI's path component, and that the response echoes the URI.
  The handler takes element 1 of \<^verbatim>\<open>pathname.split("/contents/")\<close>, which is only the piece
  between the first and the second occurrence. For the file \<^verbatim>\<open>docs/contents/intro.md\<close> the
  handler asks the forge for \<^verbatim>\<open>docs\<close>, not for \<^verbatim>\<open>docs/contents/intro.md\<close>, and the read fails
  because \<^verbatim>\<open>docs\<close> is a directory. With a single occurrence the path is the one C1
  states (\<open>resource_path_once\<close>), and the URI is echoed (\<open>read_resource_echo\<close>).\<close>

theorem read_resource_nested_contents:
  "resource_path acme_runtime
     ''https://api.github.com/repos/acme/widgets/contents/docs/contents/intro.md''
     = Inr (Some ''docs'')
   \<and> resource_path acme_runtime
       ''https://api.github.com/repos/acme/widgets/contents/docs/contents/intro.md''
     \<noteq> Inr (Some ''docs/contents/intro.md'')
   \<and> ReadResource_handler acme_runtime acme_server
       ''https://api.github.com/repos/acme/widgets/contents/docs/contents/intro.md''
     = ([\<lparr>req_url = ''https://api.github.com/repos/acme/widgets/contents/docs'',
          req_headers =
            [(''Authorization'', ''token t0k''),
             (''Accept'', ''application/vnd.github.v3+json''),
             (''User-Agent'', ''mcp-server-github-repo'')]\<rparr>],
        Inl (Error ''Path points to a directory, not a file''))"
proof -
  have p: "resource_path acme_runtime
             ''https://api.github.com/repos/acme/widgets/contents/docs/contents/intro.md''
           = Inr (Some ''docs'')"
    by (simp add: resource_path_def acme_runtime_def table_runtime_def split_intro index_def)
  have f: "fetch acme_runtime (contents_request acme_server (template_str (Some ''docs'')))
             = Some \<lparr>ok = True, statusText = ''OK'',
                     body = Some (JArr [listing_entry ''dir'' ''docs/contents''])\<rparr>"
    by (simp add: acme_fetch template_str_def)
  have "getFileContent acme_runtime acme_server (Some ''docs'') =
          ([contents_request acme_server ''docs''],
           Inl (Error ''Path points to a directory, not a file''))"
    by (simp add: getFileContent_ok [OF f] listing_parsed template_str_def)
  with p show ?thesis
    by (simp add: ReadResource_handler_def acme_request)
qed

subsection \<open>C2: validation in createGithubRepoServer\<close>

text \<open>C2: \<^verbatim>\<open>createGithubRepoServer\<close> checks the token, the owner and the repository in that
  order and fails on the first empty one with the message that names it; with all three
  non-empty it returns a server, and in every case it has made no outbound request.\<close>

theorem createGithubRepoServer_validation:
  "(githubPersonalAccessToken p = [] \<longrightarrow>
      createGithubRepoServer p = ([], Inl (Error ''githubPersonalAccessToken is required'')))
   \<and> (githubPersonalAccessToken p \<noteq> [] \<and> owner p = [] \<longrightarrow>
      createGithubRepoServer p = ([], Inl (Error ''owner is required'')))
   \<and> (githubPersonalAccessToken p \<noteq> [] \<and> owner p \<noteq> [] \<and> repo p = [] \<longrightarrow>
      createGithubRepoServer p = ([], Inl (Error ''repo is required'')))
   \<and> (githubPersonalAccessToken p \<noteq> [] \<and> owner p \<noteq> [] \<and> repo p \<noteq> [] \<longrightarrow>
      fst (createGithubRepoServer p) = []
      \<and> (\<exists>srv. snd (createGithubRepoServer p) = Inr srv \<and> params srv = p))"
  by (simp add: createGithubRepoServer_def)

theorem createGithubRepoServer_validation_witness:
  "createGithubRepoServer
     \<lparr>githubPersonalAccessToken = [], owner = ''acme'', repo = ''widgets'', branch = None\<rparr>
     = ([], Inl (Error ''githubPersonalAccessToken is required''))
   \<and> createGithubRepoServer
     \<lparr>githubPersonalAccessToken = ''t0k'', owner = [], repo = [], branch = None\<rparr>
     = ([], Inl (Error ''owner is required''))
   \<and> createGithubRepoServer
     \<lparr>githubPersonalAccessToken = ''t0k'', owner = ''acme'', repo = [], branch = None\<rparr>
     = ([], Inl (Error ''repo is required''))
   \<and> fst (createGithubRepoServer acme_params) = []
   \<and> (\<exists>srv. snd (createGithubRepoServer acme_params) = Inr srv \<and> params srv = acme_params)"
  using
    createGithubRepoServer_validation
      [of "\<lparr>githubPersonalAccessToken = [], owner = ''acme'', repo = ''widgets'',
            branch = None\<rparr>"]
    createGithubRepoServer_validation
      [of "\<lparr>githubPersonalAccessToken = ''t0k'', owner = [], repo = [], branch = None\<rparr>"]
    createGithubRepoServer_validation
      [of "\<lparr>githubPersonalAccessToken = ''t0k'', owner = ''acme'', repo = [],
            branch = None\<rparr>"]
    createGithubRepoServer_validation [of acme_params]
  by (simp add: acme_params_def)

subsection \<open>C3: listFiles returns a sequence\<close>

text \<open>C3: when the response is successful, \<^verbatim>\<open>listFiles\<close> returns the elements of a body that is
  an array, in order and unchanged, and the one-element sequence holding the body when the
  body is a single object.\<close>

theorem listFiles_normalizes:
  assumes "fst (listFiles rt srv path) = [req]"
    and "fetch rt req = Some resp" and "ok resp"
  shows "(body resp = Some (JArr xs) \<longrightarrow> snd (listFiles rt srv path) = Inr xs)
       \<and> (body resp = Some (JObj kvs) \<longrightarrow> snd (listFiles rt srv path) = Inr [JObj kvs])"
proof -
  from assms(1) have req: "req = contents_request srv path"
    by (simp add: listFiles_requests)
  show ?thesis
    using assms(2,3) unfolding req by (simp add: listFiles_ok)
qed

theorem listFiles_normalizes_witness:
  "snd (listFiles acme_runtime acme_server []) =
     Inr [listing_entry ''file'' ''README.md'', listing_entry ''dir'' ''src'']
   \<and> snd (listFiles acme_runtime acme_server ''README.md'') =
     Inr [file_object ''file'' ''base64'' ''aGVsbG8gd29ybGQ='']"
proof
  let ?resp = "\<lparr>ok = True, statusText = ''OK'',
                 body = Some (JArr [listing_entry ''file'' ''README.md'',
                                    listing_entry ''dir'' ''src''])\<rparr>"
  have r: "fst (listFiles acme_runtime acme_server []) = [contents_request acme_server []]"
    by (rule listFiles_requests)
  have f: "fetch acme_runtime (contents_request acme_server []) = Some ?resp"
    by (simp add: acme_fetch)
  have k: "ok ?resp"
    by simp
  from listFiles_normalizes [OF r f k]
  show "snd (listFiles acme_runtime acme_server []) =
          Inr [listing_entry ''file'' ''README.md'', listing_entry ''dir'' ''src'']"
    by simp
next
  let ?resp = "\<lparr>ok = True, statusText = ''OK'',
                 body = Some (file_object ''file'' ''base64'' ''aGVsbG8gd29ybGQ='')\<rparr>"
  have r: "fst (listFiles acme_runtime acme_server ''README.md'') =
             [contents_request acme_server ''README.md'']"
    by (rule listFiles_requests)
  have f: "fetch acme_runtime (contents_request acme_server ''README.md'') = Some ?resp"
    by (simp add: acme_fetch)
  have k: "ok ?resp"
    by simp
  from listFiles_normalizes [OF r f k]
  show "snd (listFiles acme_runtime acme_server ''README.md'') =
          Inr [file_object ''file'' ''base64'' ''aGVsbG8gd29ybGQ='']"
    by (simp add: file_object_def)
qed

subsection \<open>C4: the resources of a root listing\<close>

text \<open>C4 as written speaks of every successful root listing. \<^verbatim>\<open>listFiles\<close> does not
  validate the entries, and the callback of \<^verbatim>\<open>files.map\<close> reads \<^verbatim>\<open>file.path\<close> and calls
  the \<^verbatim>\<open>URL\<close> constructor on each of them: for the successful listing
  \<^verbatim>\<open>[{...}, null]\<close> the handler throws a \<^verbatim>\<open>TypeError\<close> and returns no resource.\<close>

theorem list_resources_null_entry:
  "snd (createGithubRepoServer acme_params) = Inr acme_server
   \<and> listFiles null_entry_runtime acme_server [] =
       ([contents_request acme_server []],
        Inr [listing_entry ''file'' ''README.md'', JNull])
   \<and> ListResources_handler null_entry_runtime acme_server =
       ([contents_request acme_server []], Inl TypeError)"
proof -
  let ?files = "[listing_entry ''file'' ''README.md'', JNull]"
  let ?resp = "\<lparr>ok = True, statusText = ''OK'', body = Some (JArr ?files)\<rparr>"
  have f: "fetch null_entry_runtime (contents_request acme_server []) = Some ?resp"
    by (simp add: acme_request table_fetch null_entry_runtime_def)
  have l: "listFiles null_entry_runtime acme_server [] =
             ([contents_request acme_server []], Inr ?files)"
    by (simp add: listFiles_ok [OF f])
  have nn: "listing_entry ''file'' ''README.md'' \<noteq> JNull"
    by (simp add: listing_entry_def)
  have h: "URL_href null_entry_runtime
             (property (listing_entry ''file'' ''README.md'') ''path'')
             (resourceBaseUrl acme_server) =
             Some ''https://api.github.com/repos/acme/widgets/contents/README.md''"
    by (simp add: property_def listing_entry_def null_entry_runtime_def table_runtime_def
          acme_server_def)
  have n: "to_resource null_entry_runtime acme_server JNull = Inl TypeError"
    by (simp add: to_resource_def get_prop_def)
  have "map_throw (to_resource null_entry_runtime acme_server) ?files = Inl TypeError"
    by (simp add: to_resource_Inr [OF nn h] n)
  with l show ?thesis
    by (simp add: ListResources_handler_def acme_server_created)
qed

text \<open>C4, amended: for a server made by \<^verbatim>\<open>createGithubRepoServer\<close> and a successful root
  listing in which no entry is \<^verbatim>\<open>null\<close> and the \<^verbatim>\<open>URL\<close> constructor resolves every
  entry's path, the list-resources handler returns one resource per entry, in the same
  order: its \<^verbatim>\<open>uri\<close> is the entry's path resolved against
  \<^verbatim>\<open>https://api.github.com/repos/{owner}/{repo}/contents/\<close>, its \<^verbatim>\<open>mimeType\<close> is
  \<^verbatim>\<open>text/plain\<close> when the entry's type is \<^verbatim>\<open>file\<close> and \<^verbatim>\<open>application/x-directory\<close>
  otherwise, and its \<^verbatim>\<open>name\<close> is the entry's path.\<close>

theorem list_resources_descriptors:
  assumes "snd (createGithubRepoServer p) = Inr srv"
    and "listFiles rt srv [] = (reqs, Inr files)"
    and "\<forall>file \<in> set files. file \<noteq> JNull
           \<and> (\<exists>href. URL_href rt (property file ''path'')
                  (''https://api.github.com/repos/'' @ owner p @ ''/'' @ repo p
                     @ ''/contents/'') = Some href)"
  shows "\<exists>rs. ListResources_handler rt srv = (reqs, Inr rs)
           \<and> length rs = length files
           \<and> (\<forall>i < length files.
                 URL_href rt (property (files ! i) ''path'')
                   (''https://api.github.com/repos/'' @ owner p @ ''/'' @ repo p
                      @ ''/contents/'') = Some (res_uri (rs ! i))
                 \<and> res_mimeType (rs ! i) =
                     (if property (files ! i) ''type'' = Some (JStr ''file'')
                      then ''text/plain'' else ''application/x-directory'')
                 \<and> res_name (rs ! i) = property (files ! i) ''path'')"
proof -
  from assms(1) have base:
    "resourceBaseUrl srv =
       ''https://api.github.com/repos/'' @ owner p @ ''/'' @ repo p @ ''/contents/''"
    by (auto simp add: createGithubRepoServer_def split: if_splits)
  have "\<forall>file \<in> set files. \<exists>r. to_resource rt srv file = Inr r"
    using assms(3) to_resource_Inr [of _ rt srv] unfolding base by blast
  from map_throw_Inr [OF this]
  obtain rs where rs: "map_throw (to_resource rt srv) files = Inr rs"
      "length rs = length files"
      "\<forall>i < length files. to_resource rt srv (files ! i) = Inr (rs ! i)"
    by blast
  have handler: "ListResources_handler rt srv = (reqs, Inr rs)"
    using assms(2) rs(1) by (simp add: ListResources_handler_def)
  have "URL_href rt (property (files ! i) ''path'')
            (''https://api.github.com/repos/'' @ owner p @ ''/'' @ repo p
               @ ''/contents/'') = Some (res_uri (rs ! i))
          \<and> res_mimeType (rs ! i) =
              (if property (files ! i) ''type'' = Some (JStr ''file'')
               then ''text/plain'' else ''application/x-directory'')
          \<and> res_name (rs ! i) = property (files ! i) ''path''"
    if i: "i < length files" for i
  proof -
    from i have mem: "files ! i \<in> set files"
      by simp
    with assms(3) obtain href where nn: "files ! i \<noteq> JNull"
      and href: "URL_href rt (property (files ! i) ''path'') (resourceBaseUrl srv) = Some href"
      unfolding base by blast
    from rs(3) i to_resource_Inr [OF nn href]
    have "rs ! i =
            \<lparr>res_uri = href,
             res_mimeType =
               (if property (files ! i) ''type'' = Some (JStr ''file'') then ''text/plain''
                else ''application/x-directory''),
             res_name = property (files ! i) ''path''\<rparr>"
      by simp
    with href show ?thesis
      unfolding base by simp
  qed
  with handler rs(2) show ?thesis
    by blast
qed

theorem list_resources_descriptors_witness:
  "\<exists>rs. ListResources_handler acme_runtime acme_server =
          ([contents_request acme_server []], Inr rs)
     \<and> length rs = 2
     \<and> res_uri (rs ! 0) = ''https://api.github.com/repos/acme/widgets/contents/README.md''
     \<and> res_mimeType (rs ! 0) = ''text/plain''
     \<and> res_name (rs ! 0) = Some (JStr ''README.md'')
     \<and> res_uri (rs ! 1) = ''https://api.github.com/repos/acme/widgets/contents/src''
     \<and> res_mimeType (rs ! 1) = ''application/x-directory''
     \<and> res_name (rs ! 1) = Some (JStr ''src'')"
proof -
  let ?files = "[listing_entry ''file'' ''README.md'', listing_entry ''dir'' ''src'']"
  let ?resp = "\<lparr>ok = True, statusText = ''OK'', body = Some (JArr ?files)\<rparr>"
  have c: "snd (createGithubRepoServer acme_params) = Inr acme_server"
    by (simp add: acme_server_created)
  have f: "fetch acme_runtime (contents_request acme_server []) = Some ?resp"
    by (simp add: acme_fetch)
  have l: "listFiles acme_runtime acme_server [] =
             ([contents_request acme_server []], Inr ?files)"
    by (simp add: listFiles_ok [OF f])
  have path: "property (listing_entry t p) ''path'' = Some (JStr p)"
    and type: "property (listing_entry t p) ''type'' = Some (JStr t)" for t p
    by (simp_all add: property_def listing_entry_def)
  have href: "URL_href acme_runtime (Some (JStr ''README.md''))
                ''https://api.github.com/repos/acme/widgets/contents/'' =
                Some ''https://api.github.com/repos/acme/widgets/contents/README.md''"
      "URL_href acme_runtime (Some (JStr ''src''))
                ''https://api.github.com/repos/acme/widgets/contents/'' =
                Some ''https://api.github.com/repos/acme/widgets/contents/src''"
    by (simp_all add: acme_runtime_def table_runtime_def)
  have nn: "listing_entry t p \<noteq> JNull" for t p
    by (simp add: listing_entry_def)
  have h: "\<forall>file \<in> set ?files. file \<noteq> JNull
             \<and> (\<exists>href. URL_href acme_runtime (property file ''path'')
                    (''https://api.github.com/repos/'' @ owner acme_params @ ''/''
                       @ repo acme_params @ ''/contents/'') = Some href)"
    by (simp add: path href nn acme_params_def)
  from list_resources_descriptors [OF c l h]
  obtain rs where rs: "ListResources_handler acme_runtime acme_server =
        ([contents_request acme_server []], Inr rs)"
      "length rs = length ?files"
      "\<forall>i < length ?files.
         URL_href acme_runtime (property (?files ! i) ''path'')
           (''https://api.github.com/repos/'' @ owner acme_params @ ''/''
              @ repo acme_params @ ''/contents/'') = Some (res_uri (rs ! i))
         \<and> res_mimeType (rs ! i) =
             (if property (?files ! i) ''type'' = Some (JStr ''file'')
              then ''text/plain'' else ''application/x-directory'')
         \<and> res_name (rs ! i) = property (?files ! i) ''path''"
    by blast
  from rs(3) [rule_format, of 0] rs(3) [rule_format, of 1]
  have "res_uri (rs ! 0) = ''https://api.github.com/repos/acme/widgets/contents/README.md''
      \<and> res_mimeType (rs ! 0) = ''text/plain''
      \<and> res_name (rs ! 0) = Some (JStr ''README.md'')
      \<and> res_uri (rs ! 1) = ''https://api.github.com/repos/acme/widgets/contents/src''
      \<and> res_mimeType (rs ! 1) = ''application/x-directory''
      \<and> res_name (rs ! 1) = Some (JStr ''src'')"
    by (simp add: path type href acme_params_def)
  with rs(1,2) show ?thesis
    by simp
qed

subsection \<open>C5: reading a directory\<close>

text \<open>C5: when the body of a successful response validates as an array of directory entries,
  \<^verbatim>\<open>getFileContent\<close> fails with the error whose message is
  \<^verbatim>\<open>Path points to a directory, not a file\<close>; that error is neither the schema's error
  nor a \<^verbatim>\<open>GitHub API error\<close>.\<close>

theorem directory_read_rejected:
  assumes "fetch rt (contents_request srv (template_str path)) = Some resp" and "ok resp"
    and "body resp = Some (JArr xs)"
    and "GitHubContentSchema_parse (JArr xs) = Inr (DirectoryContents ds)"
  shows "getFileContent rt srv path =
           ([contents_request srv (template_str path)],
            Inl (Error ''Path points to a directory, not a file''))
       \<and> snd (getFileContent rt srv path) \<noteq> Inl ZodError
       \<and> (\<forall>t. snd (getFileContent rt srv path) \<noteq> Inl (Error (''GitHub API error: '' @ t)))"
  using assms by (simp add: getFileContent_ok)

theorem directory_read_rejected_witness:
  "getFileContent acme_runtime acme_server (Some ''src'') =
     ([contents_request acme_server ''src''],
      Inl (Error ''Path points to a directory, not a file''))
   \<and> snd (getFileContent acme_runtime acme_server (Some ''src'')) \<noteq> Inl ZodError
   \<and> (\<forall>t. snd (getFileContent acme_runtime acme_server (Some ''src''))
          \<noteq> Inl (Error (''GitHub API error: '' @ t)))"
proof -
  let ?resp = "\<lparr>ok = True, statusText = ''OK'',
                 body = Some (JArr [listing_entry ''file'' ''src/index.ts''])\<rparr>"
  have f: "fetch acme_runtime (contents_request acme_server (template_str (Some ''src'')))
             = Some ?resp"
    by (simp add: acme_fetch template_str_def)
  have k: "ok ?resp" and b: "body ?resp = Some (JArr [listing_entry ''file'' ''src/index.ts''])"
    by simp_all
  from directory_read_rejected [OF f k b listing_parsed]
  show ?thesis
    by (simp add: template_str_def)
qed

subsection \<open>C6: decoding the content inverts its encoding\<close>

text \<open>C6: for every text \<open>s\<close> of Unicode scalar values, when the body of a successful
  response is a file object whose \<^verbatim>\<open>content\<close> is the base64 encoding of the UTF-8 bytes of
  \<open>s\<close>, \<^verbatim>\<open>getFileContent\<close> returns exactly \<open>s\<close>. The witness is the text
  \<^verbatim>\<open>hello world\<close>, whose encoding is \<^verbatim>\<open>aGVsbG8gd29ybGQ=\<close>.\<close>

theorem content_roundtrip:
  assumes "\<forall>c \<in> set s. scalar_value c"
    and "fetch rt (contents_request srv (template_str path)) = Some resp" and "ok resp"
    and "body resp = Some j" and "GitHubFileContentSchema j = Some data"
    and "fc_content data = base64_encode (utf8_encode s)"
  shows "snd (getFileContent rt srv path) = Inr s"
proof -
  have "utf8_decode (base64_decode (base64_encode (utf8_encode s))) = s"
    using assms(1) by (simp add: base64_roundtrip utf8_encode_bytes utf8_roundtrip)
  with assms(2-6) show ?thesis
    by (simp add: getFileContent_ok parse_file Buffer_base64_utf8_def)
qed

theorem content_roundtrip_witness:
  "snd (getFileContent acme_runtime acme_server (Some ''README.md'')) =
     Inr (code_points ''hello world'')"
proof -
  let ?resp = "\<lparr>ok = True, statusText = ''OK'',
                 body = Some (file_object ''file'' ''base64'' ''aGVsbG8gd29ybGQ='')\<rparr>"
  have s: "\<forall>c \<in> set (code_points ''hello world''). scalar_value c"
    by (simp add: code_points_def scalar_value_def)
  have f: "fetch acme_runtime (contents_request acme_server (template_str (Some ''README.md'')))
             = Some ?resp"
    by (simp add: acme_fetch template_str_def)
  have k: "ok ?resp" and b: "body ?resp = Some (file_object ''file'' ''base64'' ''aGVsbG8gd29ybGQ='')"
    by simp_all
  note v = file_object_valid [of "''file''" "''base64''" "''aGVsbG8gd29ybGQ=''"]
  have e: "fc_content
             \<lparr>fc_type = ''file'', fc_encoding = ''base64'', fc_size = 11,
              fc_name = ''README.md'', fc_path = ''README.md'',
              fc_content = ''aGVsbG8gd29ybGQ='', fc_sha = ''3b18e512'',
              fc_url = ''https://api.github.com/repos/acme/widgets/contents/README.md'',
              fc_git_url = ''https://api.github.com/repos/acme/widgets/git/blobs/3b18e512'',
              fc_html_url = ''https://github.com/acme/widgets/blob/main/README.md'',
              fc_download_url =
                ''https://raw.githubusercontent.com/acme/widgets/main/README.md''\<rparr>
           = base64_encode (utf8_encode (code_points ''hello world''))"
    by (simp add: hello_world_encoded)
  from content_roundtrip [OF s f k b v e] show ?thesis .
qed

subsection \<open>C7: the URL of the outbound request\<close>

text \<open>C7 as written appends \<^verbatim>\<open>ref\<close> whenever a branch was configured. The test is
  \<^verbatim>\<open>if (branch)\<close>, and the empty string is falsy: a server configured with the branch
  \<^verbatim>\<open>""\<close> requests URLs without \<^verbatim>\<open>ref\<close>.\<close>

theorem empty_branch_no_ref:
  "branch (params (acme_server\<lparr>params := acme_params\<lparr>branch := Some []\<rparr>\<rparr>)) = Some []
   \<and> map req_url (fst (listFiles acme_runtime
         (acme_server\<lparr>params := acme_params\<lparr>branch := Some []\<rparr>\<rparr>) ''src'')) =
       [''https://api.github.com/repos/acme/widgets/contents/src'']
   \<and> map req_url (fst (getFileContent acme_runtime
         (acme_server\<lparr>params := acme_params\<lparr>branch := Some []\<rparr>\<rparr>) (Some ''src''))) =
       [''https://api.github.com/repos/acme/widgets/contents/src'']
   \<and> ''https://api.github.com/repos/acme/widgets/contents/src''
       \<noteq> ''https://api.github.com/repos/acme/widgets/contents/src?ref=''"
  by (simp add: listFiles_requests getFileContent_requests contents_request_url
        truthy_def template_str_def acme_params_def)

text \<open>C7, amended: for every path, \<^verbatim>\<open>listFiles\<close> and \<^verbatim>\<open>getFileContent\<close> request the same
  URL, \<^verbatim>\<open>https://api.github.com/repos/{owner}/{repo}/contents/{path}\<close>, followed by
  \<^verbatim>\<open>?ref={branch}\<close> when a non-empty branch is configured, and by nothing when no branch
  is configured or the branch is the empty string.\<close>

theorem request_url_branch:
  "(branch (params srv) = Some b \<and> b \<noteq> [] \<longrightarrow>
      map req_url (fst (listFiles rt srv path)) =
        [''https://api.github.com/repos/'' @ owner (params srv) @ ''/'' @ repo (params srv)
           @ ''/contents/'' @ path @ ''?ref='' @ b]
      \<and> map req_url (fst (getFileContent rt srv (Some path))) =
        [''https://api.github.com/repos/'' @ owner (params srv) @ ''/'' @ repo (params srv)
           @ ''/contents/'' @ path @ ''?ref='' @ b])
   \<and> (branch (params srv) = None \<longrightarrow>
      map req_url (fst (listFiles rt srv path)) =
        [''https://api.github.com/repos/'' @ owner (params srv) @ ''/'' @ repo (params srv)
           @ ''/contents/'' @ path]
      \<and> map req_url (fst (getFileContent rt srv (Some path))) =
        [''https://api.github.com/repos/'' @ owner (params srv) @ ''/'' @ repo (params srv)
           @ ''/contents/'' @ path])
   \<and> (branch (params srv) = Some [] \<longrightarrow>
      map req_url (fst (listFiles rt srv path)) =
        [''https://api.github.com/repos/'' @ owner (params srv) @ ''/'' @ repo (params srv)
           @ ''/contents/'' @ path]
      \<and> map req_url (fst (getFileContent rt srv (Some path))) =
        [''https://api.github.com/repos/'' @ owner (params srv) @ ''/'' @ repo (params srv)
           @ ''/contents/'' @ path])"
  by (simp add: listFiles_requests getFileContent_requests contents_request_url
        truthy_def template_str_def)

theorem request_url_branch_witness:
  "map req_url (fst (listFiles acme_runtime
       (acme_server\<lparr>params := acme_params\<lparr>branch := Some ''dev''\<rparr>\<rparr>) ''src'')) =
     [''https://api.github.com/repos/acme/widgets/contents/src?ref=dev'']
   \<and> map req_url (fst (getFileContent acme_runtime
       (acme_server\<lparr>params := acme_params\<lparr>branch := Some ''dev''\<rparr>\<rparr>) (Some ''src''))) =
     [''https://api.github.com/repos/acme/widgets/contents/src?ref=dev'']
   \<and> map req_url (fst (listFiles acme_runtime acme_server ''src'')) =
     [''https://api.github.com/repos/acme/widgets/contents/src'']
   \<and> map req_url (fst (getFileContent acme_runtime acme_server (Some ''src''))) =
     [''https://api.github.com/repos/acme/widgets/contents/src'']
   \<and> map req_url (fst (listFiles acme_runtime
       (acme_server\<lparr>params := acme_params\<lparr>branch := Some []\<rparr>\<rparr>) ''README.md'')) =
     [''https://api.github.com/repos/acme/widgets/contents/README.md'']
   \<and> map req_url (fst (getFileContent acme_runtime
       (acme_server\<lparr>params := acme_params\<lparr>branch := Some []\<rparr>\<rparr>) (Some ''README.md''))) =
     [''https://api.github.com/repos/acme/widgets/contents/README.md'']"
  using
    request_url_branch
      [of "acme_server\<lparr>params := acme_params\<lparr>branch := Some ''dev''\<rparr>\<rparr>" "''dev''"
          acme_runtime "''src''"]
    request_url_branch [of acme_server "''dev''" acme_runtime "''src''"]
    request_url_branch
      [of "acme_server\<lparr>params := acme_params\<lparr>branch := Some []\<rparr>\<rparr>" "''dev''"
          acme_runtime "''README.md''"]
  by (simp add: acme_server_def acme_params_def)

subsection \<open>C8: a response that is not successful\<close>

text \<open>C8: when the response to the request is not successful, \<^verbatim>\<open>listFiles\<close> and
  \<^verbatim>\<open>getFileContent\<close> both fail with \<^verbatim>\<open>GitHub API error:\<close> followed by the status text,
  and each has made exactly one outbound request.\<close>

theorem not_ok_fails_once:
  assumes "fetch rt (contents_request srv path) = Some resp" and "\<not> ok resp"
  shows "listFiles rt srv path =
           ([contents_request srv path],
            Inl (Error (''GitHub API error: '' @ statusText resp)))
       \<and> getFileContent rt srv (Some path) =
           ([contents_request srv path],
            Inl (Error (''GitHub API error: '' @ statusText resp)))"
proof
  show "listFiles rt srv path =
          ([contents_request srv path],
           Inl (Error (''GitHub API error: '' @ statusText resp)))"
    using assms by (rule listFiles_not_ok)
next
  have "template_str (Some path) = path"
    by (simp add: template_str_def)
  with assms getFileContent_not_ok [of rt srv "Some path" resp]
  show "getFileContent rt srv (Some path) =
          ([contents_request srv path],
           Inl (Error (''GitHub API error: '' @ statusText resp)))"
    by simp
qed

theorem not_ok_fails_once_witness:
  "listFiles acme_runtime acme_server ''missing'' =
     ([contents_request acme_server ''missing''],
      Inl (Error ''GitHub API error: Not Found''))
   \<and> getFileContent acme_runtime acme_server (Some ''missing'') =
     ([contents_request acme_server ''missing''],
      Inl (Error ''GitHub API error: Not Found''))"
proof -
  let ?resp = "\<lparr>ok = False, statusText = ''Not Found'',
                 body = Some (JObj [(''message'', JStr ''Not Found'')])\<rparr>"
  have f: "fetch acme_runtime (contents_request acme_server ''missing'') = Some ?resp"
    by (simp add: acme_fetch)
  have k: "\<not> ok ?resp"
    by simp
  from not_ok_fails_once [OF f k] show ?thesis
    by simp
qed

subsection \<open>C9: the empty branch\<close>

text \<open>C9: a server configured with the empty string as its branch, directly or through an
  empty \<^verbatim>\<open>GITHUB_BRANCH\<close>, behaves as the server configured with no branch: both
  operations and both handlers make the same requests and return the same results, and
  the URLs carry no \<^verbatim>\<open>ref\<close> parameter.\<close>

theorem empty_branch_as_unset:
  assumes "createGithubRepoServer (p\<lparr>branch := Some []\<rparr>) = (r1, Inr s1)
             \<and> createGithubRepoServer (p\<lparr>branch := None\<rparr>) = (r0, Inr s0)
           \<or> runServer connect (env(''GITHUB_BRANCH'' \<mapsto> [])) = (o1, Connected s1)
             \<and> runServer connect (env(''GITHUB_BRANCH'' := None)) = (o0, Connected s0)"
  shows "listFiles rt s1 path = listFiles rt s0 path
       \<and> getFileContent rt s1 fp = getFileContent rt s0 fp
       \<and> ListResources_handler rt s1 = ListResources_handler rt s0
       \<and> ReadResource_handler rt s1 uri = ReadResource_handler rt s0 uri
       \<and> map req_url (fst (listFiles rt s1 path)) =
           [''https://api.github.com/repos/'' @ owner (params s1) @ ''/'' @ repo (params s1)
              @ ''/contents/'' @ path]
       \<and> map req_url (fst (getFileContent rt s1 (Some path))) =
           [''https://api.github.com/repos/'' @ owner (params s1) @ ''/'' @ repo (params s1)
              @ ''/contents/'' @ path]"
proof -
  have "\<exists>q. createGithubRepoServer (q\<lparr>branch := Some []\<rparr>) = ([], Inr s1)
           \<and> createGithubRepoServer (q\<lparr>branch := None\<rparr>) = ([], Inr s0)"
    using assms
  proof
    assume a: "createGithubRepoServer (p\<lparr>branch := Some []\<rparr>) = (r1, Inr s1)
                 \<and> createGithubRepoServer (p\<lparr>branch := None\<rparr>) = (r0, Inr s0)"
    then have "r1 = []" and "r0 = []"
      by (simp_all add: createGithubRepoServer_def split: if_splits)
    with a show ?thesis
      by blast
  next
    assume a: "runServer connect (env(''GITHUB_BRANCH'' \<mapsto> [])) = (o1, Connected s1)
                 \<and> runServer connect (env(''GITHUB_BRANCH'' := None)) = (o0, Connected s0)"
    let ?q = "\<lparr>githubPersonalAccessToken = the (env ''GITHUB_PERSONAL_ACCESS_TOKEN''),
               owner = the (env ''GITHUB_OWNER''),
               repo = the (env ''GITHUB_REPO''),
               branch = env ''GITHUB_BRANCH''\<rparr>"
    from a started_server [of connect "env(''GITHUB_BRANCH'' \<mapsto> [])" o1 s1]
    have "createGithubRepoServer (?q\<lparr>branch := Some []\<rparr>) = ([], Inr s1)"
      by simp
    moreover
    from a started_server [of connect "env(''GITHUB_BRANCH'' := None)" o0 s0]
    have "createGithubRepoServer (?q\<lparr>branch := None\<rparr>) = ([], Inr s0)"
      by simp
    ultimately show ?thesis
      by blast
  qed
  then obtain q where q1: "createGithubRepoServer (q\<lparr>branch := Some []\<rparr>) = ([], Inr s1)"
    and q0: "createGithubRepoServer (q\<lparr>branch := None\<rparr>) = ([], Inr s0)"
    by blast
  note s1 = created_server [OF q1] and s0 = created_server [OF q0]
  have req: "contents_request s1 path = contents_request s0 path" for path
    by (simp add: s1 s0 contents_request_def truthy_def)
  have base: "resourceBaseUrl s1 = resourceBaseUrl s0"
    by (simp add: s1 s0)
  have url: "req_url (contents_request s1 path) =
               ''https://api.github.com/repos/'' @ owner (params s1) @ ''/''
                 @ repo (params s1) @ ''/contents/'' @ path"
    by (simp add: s1 contents_request_def truthy_def)
  have e1: "listFiles rt s1 path = listFiles rt s0 path"
    using req base by (rule same_requests_same_results(1))
  have e2: "getFileContent rt s1 fp = getFileContent rt s0 fp"
    using req base by (rule same_requests_same_results(2))
  have e3: "ListResources_handler rt s1 = ListResources_handler rt s0"
    using req base by (rule same_requests_same_results(3))
  have e4: "ReadResource_handler rt s1 uri = ReadResource_handler rt s0 uri"
    using req base by (rule same_requests_same_results(4))
  have u1: "map req_url (fst (listFiles rt s1 path)) =
              [''https://api.github.com/repos/'' @ owner (params s1) @ ''/''
                 @ repo (params s1) @ ''/contents/'' @ path]"
    by (simp add: listFiles_requests url)
  have u2: "map req_url (fst (getFileContent rt s1 (Some path))) =
              [''https://api.github.com/repos/'' @ owner (params s1) @ ''/''
                 @ repo (params s1) @ ''/contents/'' @ path]"
    by (simp add: getFileContent_requests template_str_def url)
  from e1 e2 e3 e4 u1 u2 show ?thesis
    by (intro conjI)
qed

theorem empty_branch_as_unset_witness:
  "listFiles acme_runtime (acme_server\<lparr>params := acme_params\<lparr>branch := Some []\<rparr>\<rparr>) [] =
     listFiles acme_runtime acme_server []
   \<and> map req_url (fst (getFileContent acme_runtime
         (acme_server\<lparr>params := acme_params\<lparr>branch := Some []\<rparr>\<rparr>) (Some ''README.md''))) =
       [''https://api.github.com/repos/acme/widgets/contents/README.md'']
   \<and> (\<exists>s1 s0.
         runServer connect_ok (acme_env(''GITHUB_BRANCH'' \<mapsto> []))
           = ([Line ''GitHub Repo MCP Server running on stdio''], Connected s1)
         \<and> runServer connect_ok (acme_env(''GITHUB_BRANCH'' := None))
           = ([Line ''GitHub Repo MCP Server running on stdio''], Connected s0)
         \<and> branch (params s1) = Some [] \<and> branch (params s0) = None
         \<and> ReadResource_handler acme_runtime s1
              ''https://api.github.com/repos/acme/widgets/contents/README.md''
            = ReadResource_handler acme_runtime s0
              ''https://api.github.com/repos/acme/widgets/contents/README.md'')"
proof (intro conjI)
  have c1: "createGithubRepoServer (acme_params\<lparr>branch := Some []\<rparr>) =
              ([], Inr (acme_server\<lparr>params := acme_params\<lparr>branch := Some []\<rparr>\<rparr>))"
    by (simp add: createGithubRepoServer_def acme_server_def acme_params_def)
  have c0: "createGithubRepoServer (acme_params\<lparr>branch := None\<rparr>) = ([], Inr acme_server)"
    by (simp add: createGithubRepoServer_def acme_server_def acme_params_def)
  note direct = empty_branch_as_unset [OF disjI1, OF conjI, OF c1 c0]
  from direct [of acme_runtime "[]"]
  show "listFiles acme_runtime (acme_server\<lparr>params := acme_params\<lparr>branch := Some []\<rparr>\<rparr>) [] =
          listFiles acme_runtime acme_server []"
    by simp
  from direct [of acme_runtime "''README.md''"]
  have "map req_url (fst (getFileContent acme_runtime
            (acme_server\<lparr>params := acme_params\<lparr>branch := Some []\<rparr>\<rparr>) (Some ''README.md''))) =
          [''https://api.github.com/repos/''
             @ owner (params (acme_server\<lparr>params := acme_params\<lparr>branch := Some []\<rparr>\<rparr>))
             @ ''/''
             @ repo (params (acme_server\<lparr>params := acme_params\<lparr>branch := Some []\<rparr>\<rparr>))
             @ ''/contents/'' @ ''README.md'']"
    by blast
  then show "map req_url (fst (getFileContent acme_runtime
            (acme_server\<lparr>params := acme_params\<lparr>branch := Some []\<rparr>\<rparr>) (Some ''README.md''))) =
          [''https://api.github.com/repos/acme/widgets/contents/README.md'']"
    by (simp add: acme_params_def)
  let ?s1 = "acme_server\<lparr>params := acme_params\<lparr>branch := Some []\<rparr>\<rparr>"
  have r1: "runServer connect_ok (acme_env(''GITHUB_BRANCH'' \<mapsto> []))
              = ([Line ''GitHub Repo MCP Server running on stdio''], Connected ?s1)"
    by (simp add: runServer_def acme_env_def connect_ok_def truthy_def
          createGithubRepoServer_def acme_server_def acme_params_def)
  have r0: "runServer connect_ok (acme_env(''GITHUB_BRANCH'' := None))
              = ([Line ''GitHub Repo MCP Server running on stdio''], Connected acme_server)"
    by (simp add: runServer_def acme_env_def connect_ok_def truthy_def
          createGithubRepoServer_def acme_server_def acme_params_def)
  note started = empty_branch_as_unset [OF disjI2, OF conjI, OF r1 r0]
  from started [of acme_runtime]
  have "ReadResource_handler acme_runtime ?s1
          ''https://api.github.com/repos/acme/widgets/contents/README.md''
        = ReadResource_handler acme_runtime acme_server
          ''https://api.github.com/repos/acme/widgets/contents/README.md''"
    by simp
  moreover have "branch (params ?s1) = Some []" and "branch (params acme_server) = None"
    by (simp_all add: acme_server_def acme_params_def)
  ultimately show "\<exists>s1 s0.
         runServer connect_ok (acme_env(''GITHUB_BRANCH'' \<mapsto> []))
           = ([Line ''GitHub Repo MCP Server running on stdio''], Connected s1)
         \<and> runServer connect_ok (acme_env(''GITHUB_BRANCH'' := None))
           = ([Line ''GitHub Repo MCP Server running on stdio''], Connected s0)
         \<and> branch (params s1) = Some [] \<and> branch (params s0) = None
         \<and> ReadResource_handler acme_runtime s1
              ''https://api.github.com/repos/acme/widgets/contents/README.md''
            = ReadResource_handler acme_runtime s0
              ''https://api.github.com/repos/acme/widgets/contents/README.md''"
    using r1 r0 by blast
qed

subsection \<open>C10: the content is decoded whatever the type and the encoding say\<close>

text \<open>C10: for every successful response whose body is an object that passes
  \<^verbatim>\<open>GitHubFileContentSchema\<close>, \<^verbatim>\<open>getFileContent\<close> returns the UTF-8 decoding of the
  base64 decoding of the object's \<^verbatim>\<open>content\<close>, whatever its \<^verbatim>\<open>type\<close> and
  \<^verbatim>\<open>encoding\<close> are.\<close>

theorem content_decoded_unconditionally:
  assumes "fetch rt (contents_request srv (template_str path)) = Some resp" and "ok resp"
    and "body resp = Some (JObj kvs)"
    and "GitHubFileContentSchema (JObj kvs) = Some data"
  shows "map_of kvs ''content'' = Some (JStr (fc_content data))
       \<and> snd (getFileContent rt srv path) =
           Inr (utf8_decode (base64_decode (fc_content data)))"
  using assms
  by (simp add: getFileContent_ok parse_file Buffer_base64_utf8_def file_schema_content)

theorem content_decoded_unconditionally_witness:
  "snd (getFileContent acme_runtime acme_server (Some ''link'')) =
     Inr (code_points ''hello world'')"
proof -
  let ?resp = "\<lparr>ok = True, statusText = ''OK'',
                 body = Some (file_object ''symlink'' ''none'' ''aGVsbG8gd29ybGQ='')\<rparr>"
  have f: "fetch acme_runtime (contents_request acme_server (template_str (Some ''link'')))
             = Some ?resp"
    by (simp add: acme_fetch template_str_def)
  have k: "ok ?resp"
    by simp
  have b: "body ?resp =
             Some (JObj [(''type'', JStr ''symlink''), (''encoding'', JStr ''none''),
               (''size'', JNum 11),
               (''name'', JStr ''README.md''), (''path'', JStr ''README.md''),
               (''content'', JStr ''aGVsbG8gd29ybGQ=''), (''sha'', JStr ''3b18e512''),
               (''url'', JStr ''https://api.github.com/repos/acme/widgets/contents/README.md''),
               (''git_url'',
                JStr ''https://api.github.com/repos/acme/widgets/git/blobs/3b18e512''),
               (''html_url'', JStr ''https://github.com/acme/widgets/blob/main/README.md''),
               (''download_url'',
                JStr ''https://raw.githubusercontent.com/acme/widgets/main/README.md'')])"
    by (simp add: file_object_def)
  note v = file_object_valid [of "''symlink''" "''none''" "''aGVsbG8gd29ybGQ=''",
      unfolded file_object_def]
  from content_decoded_unconditionally [OF f k b v] show ?thesis
    by (simp add: hello_world_decoded)
qed

end
